theory Spec2Isabelle
  imports Complex_Main "HOL-Library.Sublist" "HOL-Library.Multiset"
begin

section \<open>JavaScript strings\<close>

text \<open>
  A JavaScript string is modelled as a \<^typ>\<open>string\<close>: a list of 8-bit characters, read as
  the code units U+0000 to U+00FF. On these, \<open>String.prototype.toLowerCase\<close> works
  character by character: A--Z and the Latin-1 capitals U+00C0--U+00DE (without the
  multiplication sign U+00D7) move up by 32, everything else stays.
\<close>

definition lower_char :: "char \<Rightarrow> char" where
  "lower_char c =
     (let n = (of_char c :: nat)
      in if (65 \<le> n \<and> n \<le> 90) \<or> (192 \<le> n \<and> n \<le> 222 \<and> n \<noteq> 215)
         then char_of (n + 32) else c)"

definition toLowerCase :: "string \<Rightarrow> string" where
  "toLowerCase s = map lower_char s"

text \<open>The regular-expression classes \<open>\w\<close> (\<open>[A-Za-z0-9_]\<close>) and \<open>\s\<close> (tab, line feed,
  vertical tab, form feed, carriage return, space, no-break space).\<close>

definition is_word_char :: "char \<Rightarrow> bool" where
  "is_word_char c =
     (let n = (of_char c :: nat)
      in (65 \<le> n \<and> n \<le> 90) \<or> (97 \<le> n \<and> n \<le> 122) \<or> (48 \<le> n \<and> n \<le> 57) \<or> n = 95)"

definition is_space_char :: "char \<Rightarrow> bool" where
  "is_space_char c = (let n = (of_char c :: nat) in (9 \<le> n \<and> n \<le> 13) \<or> n = 32 \<or> n = 160)"

text \<open>\<open>s.startsWith(sub)\<close> and \<open>s.includes(sub)\<close>.\<close>

fun js_startsWith :: "string \<Rightarrow> string \<Rightarrow> bool" where
  "js_startsWith s [] = True"
| "js_startsWith [] (c # cs) = False"
| "js_startsWith (x # xs) (c # cs) = (x = c \<and> js_startsWith xs cs)"

fun js_includes :: "string \<Rightarrow> string \<Rightarrow> bool" where
  "js_includes [] sub = (sub = [])"
| "js_includes (x # xs) sub = (js_startsWith (x # xs) sub \<or> js_includes xs sub)"

text \<open>
  \<open>s.split(/[C]+/)\<close> for a character class \<open>C\<close>: the pieces between the maximal runs
  of separator characters. A run at the start or the end of the string leaves an empty
  piece there, and the empty string splits into one empty piece.
\<close>

function js_split_runs :: "(char \<Rightarrow> bool) \<Rightarrow> string \<Rightarrow> string list" where
  "js_split_runs sep s =
     (let tok = takeWhile (\<lambda>c. \<not> sep c) s;
          rest = dropWhile (\<lambda>c. \<not> sep c) s
      in if rest = [] then [tok] else tok # js_split_runs sep (dropWhile sep rest))"
  by pat_completeness auto
termination
proof (relation "measure (\<lambda>(sep, s). length s)")
  show "wf (measure (\<lambda>(sep, s). length s))" by simp
next
  fix sep :: "char \<Rightarrow> bool" and s tok rest :: string
  assume r: "rest = dropWhile (\<lambda>c. \<not> sep c) s" and ne: "rest \<noteq> []"
  from ne obtain y ys where rest: "rest = y # ys" by (cases rest) auto
  have "\<not> \<not> sep (hd (dropWhile (\<lambda>c. \<not> sep c) s))"
    using ne unfolding r by (rule hd_dropWhile)
  then have "sep y" using r rest by (metis list.sel(1))
  then have "length (dropWhile sep rest) < length rest"
    using rest length_dropWhile_le [of sep ys] by simp
  also have "length rest \<le> length s" using r by (simp add: length_dropWhile_le)
  finally show "((sep, dropWhile sep rest), (sep, s)) \<in> measure (\<lambda>(sep, s). length s)"
    by simp
qed

declare js_split_runs.simps [simp del]

text \<open>\<open>[...new Set(words)]\<close>: the elements in the order of their first occurrence.\<close>

definition new_Set :: "'a list \<Rightarrow> 'a list" where
  "new_Set xs = foldl (\<lambda>acc x. if x \<in> set acc then acc else acc @ [x]) [] xs"

section \<open>Keyword Extractor\<close>

text \<open>
  \<open>HybridSearchStrategy.extractKeywords\<close> (strategies/hybrid-search.js) and
  \<open>CombinedSearchStrategy.extractKeywords\<close> (combined-search.js). The two methods have the
  same text.
\<close>

definition stopWords :: "string list" where
  "stopWords = [''a'', ''an'', ''the'', ''and'', ''or'', ''but'', ''is'', ''are'', ''in'', ''on'',
                ''at'', ''to'', ''for'', ''with'']"

definition extractKeywords :: "string \<Rightarrow> string list" where
  "extractKeywords queryText =
     (let words =
            filter (\<lambda>word. length word > 2 \<and> word \<notin> set stopWords)
              (js_split_runs is_space_char
                (filter (\<lambda>c. is_word_char c \<or> is_space_char c) (toLowerCase queryText)))
      in new_Set words)"

definition combined_extractKeywords :: "string \<Rightarrow> string list" where
  "combined_extractKeywords queryText =
     (let words =
            filter (\<lambda>word. length word > 2 \<and> word \<notin> set stopWords)
              (js_split_runs is_space_char
                (filter (\<lambda>c. is_word_char c \<or> is_space_char c) (toLowerCase queryText)))
      in new_Set words)"

text \<open>
  The extractor as the specification words it: lowercase, strip the characters that are
  neither word characters nor whitespace, split on whitespace runs (the tokens are the
  maximal non-empty whitespace-free segments), drop the tokens of length at most 2 and
  the stop words; the result is a set.
\<close>

definition spec_tokens :: "string \<Rightarrow> string set" where
  "spec_tokens s =
     {t. t \<noteq> [] \<and> (\<exists>pre post. s = pre @ t @ post \<and> \<not> list_ex is_space_char t \<and>
            (pre = [] \<or> is_space_char (last pre)) \<and> (post = [] \<or> is_space_char (hd post)))}"

definition spec_stop_words :: "string set" where
  "spec_stop_words = {''a'', ''an'', ''the'', ''and'', ''or'', ''but'', ''is'', ''are'', ''in'', ''on'',
                      ''at'', ''to'', ''for'', ''with''}"

definition spec_extract :: "string \<Rightarrow> string set" where
  "spec_extract text =
     {t. t \<in> spec_tokens (filter (\<lambda>c. is_word_char c \<or> is_space_char c) (toLowerCase text)) \<and>
         \<not> length t \<le> 2 \<and> t \<notin> spec_stop_words}"

section \<open>Answer Grader\<close>

text \<open>
  \<open>countKeywordMatches\<close> (scripts/rag-benchmark.js). The arguments may be \<open>null\<close>
  (\<^const>\<open>None\<close>); the count (the variable \<open>count\<close>, written \<open>count'\<close>) is a JavaScript
  number that only ever grows by one per keyword, a \<^typ>\<open>nat\<close> here.
\<close>

definition negativePatterns :: "string list" where
  "negativePatterns =
     [''does not provide'', ''doesn't provide'', ''no information'',
      ''not mentioned'', ''not specified'', ''not found'', ''not available'', ''cannot find'',
      ''could not find'', ''unable to find'', ''the context does not'',
      ''the provided context does not'', ''the information is not'', ''no details'',
      ''no data'', ''not present'', ''not included'']"

text \<open>\<open>negativePatterns.some(pattern => lowerText.includes(pattern))\<close>\<close>

definition hasNegativePattern :: "string \<Rightarrow> bool" where
  "hasNegativePattern lowerText = list_ex (\<lambda>pattern. js_includes lowerText pattern) negativePatterns"

text \<open>The callback of \<open>keywords.every\<close>: the keyword stands in a negative context.\<close>

definition negativeContext :: "string \<Rightarrow> string \<Rightarrow> bool" where
  "negativeContext lowerText keyword =
     (let keywordLower = toLowerCase keyword
      in list_ex (\<lambda>pattern.
            js_includes lowerText (pattern @ '' about '' @ keywordLower) \<or>
            js_includes lowerText (pattern @ '' on '' @ keywordLower) \<or>
            js_includes lowerText (pattern @ '' regarding '' @ keywordLower)) negativePatterns)"

text \<open>One round of the counting loop: whether the keyword is counted.\<close>

definition keywordCounts :: "string \<Rightarrow> bool \<Rightarrow> string \<Rightarrow> bool" where
  "keywordCounts lowerText hasNegative keyword =
     (let keywordLower = toLowerCase keyword
      in if js_includes lowerText keywordLower then
           (if hasNegative then
              (let sentences = js_split_runs (\<lambda>c. c = CHR ''.'' \<or> c = CHR ''!'' \<or> c = CHR ''?'') lowerText;
                   keywordSentences = filter (\<lambda>s. js_includes s keywordLower) sentences
               in list_ex (\<lambda>sentence.
                     \<not> list_ex (\<lambda>pattern. js_includes sentence pattern) negativePatterns)
                    keywordSentences)
            else True)
         else False)"

fun countLoop :: "string \<Rightarrow> bool \<Rightarrow> string list \<Rightarrow> nat \<Rightarrow> nat" where
  "countLoop lowerText hasNegative [] count' = count'"
| "countLoop lowerText hasNegative (keyword # keywords) count' =
     countLoop lowerText hasNegative keywords
       (if keywordCounts lowerText hasNegative keyword then count' + 1 else count')"

definition countKeywordMatches :: "string option \<Rightarrow> string list option \<Rightarrow> nat" where
  "countKeywordMatches text keywords =
     (case text of
        None \<Rightarrow> 0
      | Some txt \<Rightarrow>
          (case keywords of
             None \<Rightarrow> 0
           | Some kws \<Rightarrow>
               if txt = [] \<or> length kws = 0 then 0
               else
                 (let lowerText = toLowerCase txt;
                      hasNegative = hasNegativePattern lowerText
                  in if hasNegative \<and> list_all (negativeContext lowerText) kws then 0
                     else countLoop lowerText hasNegative kws 0)))"

section \<open>Document store\<close>

text \<open>
  A shard \<open>documents_<width>\<close> (schema_multi_dimension.sql) is a list of rows. The
  strategies select the first six columns (\<open>id\<close> is written \<open>id_col\<close>); the nullable
  ones are options. Scores are \<open>double precision\<close> in the store and JavaScript numbers
  in the results; they are modelled as real numbers. Ingestion
  (\<open>storeMultiDimensionEmbeddingsInPostgres\<close>) stores an embedding with every row.
\<close>

record columns =
  id_col :: nat
  content :: string
  content_type :: string
  metadata :: "string option"
  xeto_spec_name :: "string option"
  xeto_library :: "string option"

record document = columns +
  embedding_model :: string
  embedding :: "real list"

definition select_columns :: "document \<Rightarrow> columns" where
  "select_columns d =
     \<lparr>id_col = id_col d, content = content d, content_type = content_type d,
      metadata = metadata d, xeto_spec_name = xeto_spec_name d, xeto_library = xeto_library d\<rparr>"

type_synonym database = "string \<Rightarrow> document list option"

datatype store_error = UndefinedTable string | DivisionByZero

text \<open>\<open>FROM ${tableName}\<close>: the store answers with an error when the relation does not exist.\<close>

definition from_table :: "database \<Rightarrow> string \<Rightarrow> store_error + document list" where
  "from_table db name = (case db name of None \<Rightarrow> Inl (UndefinedTable name) | Some rows \<Rightarrow> Inr rows)"

text \<open>The template literal \<open>`documents_${dimension}`\<close>; \<open>dimension\<close> is a number or \<open>null\<close>.\<close>

function decimal :: "nat \<Rightarrow> string" where
  "decimal n = (if n < 10 then [char_of (48 + n)] else decimal (n div 10) @ [char_of (48 + n mod 10)])"
  by pat_completeness auto
termination
  by (relation "measure (\<lambda>n. n)") auto

declare decimal.simps [simp del]

definition tableName :: "nat option \<Rightarrow> string" where
  "tableName dimension = ''documents_'' @ (case dimension of None \<Rightarrow> ''null'' | Some n \<Rightarrow> decimal n)"

text \<open>
  pgvector's cosine distance \<open><=>\<close>, over real numbers. It is the distance of two
  vectors of the same width, neither of them the zero vector: pgvector raises an error
  for vectors of different widths and returns \<open>NaN\<close> when one of them is the zero vector,
  and neither is modelled. \<open>vectors_ok\<close> says that the query vector and the embeddings
  of a shard are vectors for which the distance is defined; the properties of the
  rankings below are stated for such vectors.
\<close>

definition dot :: "real list \<Rightarrow> real list \<Rightarrow> real" where
  "dot a b = sum_list (map (\<lambda>(x, y). x * y) (zip a b))"

definition cosine_distance :: "real list \<Rightarrow> real list \<Rightarrow> real" where
  "cosine_distance a b = 1 - dot a b / sqrt (dot a a * dot b b)"

definition vectors_ok :: "real list \<Rightarrow> document list \<Rightarrow> bool" where
  "vectors_ok q docs =
     (dot q q \<noteq> 0 \<and>
      list_all (\<lambda>d. length (embedding d) = length q \<and> dot (embedding d) (embedding d) \<noteq> 0) docs)"

text \<open>
  \<open>ORDER BY key\<close>: PostgreSQL returns the rows in ascending order of the key and leaves
  the order of rows with equal keys open. The store's way to order rows is therefore a
  parameter of the queries, an \<open>ordering\<close>; \<open>is_order_by\<close> holds of every ordering
  that returns the rows it was given, each as often as it came, in ascending order of the
  key. \<open>ORDER BY key DESC\<close> is the ordering by the negated key. \<open>LIMIT n\<close> is
  \<^const>\<open>take\<close>.
\<close>

type_synonym 'a ordering = "('a \<Rightarrow> real) \<Rightarrow> 'a list \<Rightarrow> 'a list"

definition is_order_by :: "'a ordering \<Rightarrow> bool" where
  "is_order_by ob = (\<forall>key rows. mset (ob key rows) = mset rows \<and> sorted (map key (ob key rows)))"

definition descending :: "'a ordering \<Rightarrow> 'a ordering" where
  "descending ob key rows = ob (\<lambda>r. - key r) rows"

text \<open>
  One ordering is the stable sort, where rows with equal keys keep the order they came
  in. The searches without an ordering parameter, used in the examples, are the searches
  with this ordering.
\<close>

definition order_by :: "('a \<Rightarrow> real) \<Rightarrow> 'a list \<Rightarrow> 'a list" where
  "order_by key rows = sort_key key rows"

definition order_by_desc :: "('a \<Rightarrow> real) \<Rightarrow> 'a list \<Rightarrow> 'a list" where
  "order_by_desc key rows = sort_key (\<lambda>r. - key r) rows"

text \<open>
  PostgreSQL's full-text search is a parameter of the strategies: whether a document text
  holds the lexeme of a query term, \<open>ts_rank_cd\<close> of a text for the terms of a query, and
  the field-weighted \<open>ts_rank_cd\<close> (type name A, library B, content C, normalisation 32)
  for a plain-text query.
\<close>

record text_search =
  lexeme_match :: "string \<Rightarrow> string \<Rightarrow> bool"
  rank_cd :: "string \<Rightarrow> string list \<Rightarrow> real"
  rank_cd_weighted :: "string \<Rightarrow> string \<Rightarrow> string \<Rightarrow> string \<Rightarrow> real"

text \<open>\<open>keywords.join(' | ')\<close>\<close>

fun js_join :: "string \<Rightarrow> string list \<Rightarrow> string" where
  "js_join sep [] = []"
| "js_join sep [x] = x"
| "js_join sep (x # y # ys) = x @ sep @ js_join sep (y # ys)"

text \<open>
  \<open>to_tsquery('english', $4)\<close> of such a pattern: the disjunction of its terms. The
  empty pattern gives the empty query (with a notice, not an error), which no document
  matches.
\<close>

definition tsquery_terms :: "string \<Rightarrow> string list" where
  "tsquery_terms pat =
     filter (\<lambda>t. t \<noteq> []) (js_split_runs (\<lambda>c. c = CHR ''|'' \<or> c = CHR '' '') pat)"

definition ts_match :: "text_search \<Rightarrow> string \<Rightarrow> string \<Rightarrow> bool" where
  "ts_match ts txt pat = list_ex (lexeme_match ts txt) (tsquery_terms pat)"

text \<open>
  \<open>text ILIKE pat\<close>: \<open>%\<close> stands for any sequence of characters, \<open>_\<close> for any one
  character, a backslash makes the next character literal; letters match without regard
  to case. A pattern that ends in a lone backslash is an error in PostgreSQL; the
  patterns built below end in \<open>%\<close>.
\<close>

fun like_match :: "string \<Rightarrow> string \<Rightarrow> bool" where
  "like_match [] s = (s = [])"
| "like_match (p # ps) [] = (p = CHR ''%'' \<and> like_match ps [])"
| "like_match (p # ps) (c # cs) =
     (if p = CHR ''%'' then like_match ps (c # cs) \<or> like_match (p # ps) cs
      else if p = CHR ''_'' then like_match ps cs
      else if p = CHR 0x5C then (case ps of [] \<Rightarrow> False | q # qs \<Rightarrow> c = q \<and> like_match qs cs)
      else p = c \<and> like_match ps cs)"

definition ilike :: "string \<Rightarrow> string \<Rightarrow> bool" where
  "ilike txt pat = like_match (toLowerCase pat) (toLowerCase txt)"

text \<open>\<open>a FULL OUTER JOIN b ON a.id = b.id\<close> and \<open>COALESCE\<close>.\<close>

datatype ('a, 'b) joined = LeftOnly 'a | Both 'a 'b | RightOnly 'b

definition full_outer_join ::
  "('a \<Rightarrow> nat) \<Rightarrow> ('b \<Rightarrow> nat) \<Rightarrow> 'a list \<Rightarrow> 'b list \<Rightarrow> ('a, 'b) joined list" where
  "full_outer_join ka kb xs ys =
     concat (map (\<lambda>x. case filter (\<lambda>y. ka x = kb y) ys of
                          [] \<Rightarrow> [LeftOnly x]
                        | m # ms \<Rightarrow> map (Both x) (m # ms)) xs) @
     map RightOnly (filter (\<lambda>y. \<not> list_ex (\<lambda>x. ka x = kb y) xs) ys)"

definition coalesce :: "'a option \<Rightarrow> 'a \<Rightarrow> 'a" where
  "coalesce x d = (case x of None \<Rightarrow> d | Some v \<Rightarrow> v)"

definition coalesce_col :: "('a \<Rightarrow> 'c) \<Rightarrow> ('b \<Rightarrow> 'c) \<Rightarrow> ('a, 'b) joined \<Rightarrow> 'c" where
  "coalesce_col f g j = (case j of LeftOnly a \<Rightarrow> f a | Both a b \<Rightarrow> f a | RightOnly b \<Rightarrow> g b)"

definition coalesce_null :: "('a \<Rightarrow> 'c option) \<Rightarrow> ('b \<Rightarrow> 'c option) \<Rightarrow> ('a, 'b) joined \<Rightarrow> 'c option" where
  "coalesce_null f g j =
     (case j of LeftOnly a \<Rightarrow> f a
      | Both a b \<Rightarrow> (case f a of None \<Rightarrow> g b | Some v \<Rightarrow> Some v)
      | RightOnly b \<Rightarrow> g b)"

definition coalesce_columns :: "('a \<Rightarrow> columns) \<Rightarrow> ('b \<Rightarrow> columns) \<Rightarrow> ('a, 'b) joined \<Rightarrow> columns" where
  "coalesce_columns f g j =
     \<lparr>id_col = coalesce_col (id_col \<circ> f) (id_col \<circ> g) j,
      content = coalesce_col (content \<circ> f) (content \<circ> g) j,
      content_type = coalesce_col (content_type \<circ> f) (content_type \<circ> g) j,
      metadata = coalesce_null (metadata \<circ> f) (metadata \<circ> g) j,
      xeto_spec_name = coalesce_null (xeto_spec_name \<circ> f) (xeto_spec_name \<circ> g) j,
      xeto_library = coalesce_null (xeto_library \<circ> f) (xeto_library \<circ> g) j\<rparr>"

text \<open>The column of one side of a join, \<open>NULL\<close> where that side is missing.\<close>

definition left_col :: "('a \<Rightarrow> 'c option) \<Rightarrow> ('a, 'b) joined \<Rightarrow> 'c option" where
  "left_col f j = (case j of LeftOnly a \<Rightarrow> f a | Both a b \<Rightarrow> f a | RightOnly b \<Rightarrow> None)"

definition right_col :: "('b \<Rightarrow> 'c option) \<Rightarrow> ('a, 'b) joined \<Rightarrow> 'c option" where
  "right_col g j = (case j of LeftOnly a \<Rightarrow> None | Both a b \<Rightarrow> g b | RightOnly b \<Rightarrow> g b)"

text \<open>\<open>options.weight || fallback\<close>: an absent option and the number 0 are both falsy.\<close>

definition js_or :: "real option \<Rightarrow> real \<Rightarrow> real" where
  "js_or x fallback = (case x of None \<Rightarrow> fallback | Some v \<Rightarrow> if v = 0 then fallback else v)"

section \<open>Retrieval strategies\<close>

text \<open>
  The three branch queries. \<open>vector_results\<close> is also the whole query of the Vector
  strategy; the strategies differ in the limit. The first argument of \<open>vector_results_by\<close>
  and \<open>keyword_results_by\<close> is the ordering the store uses for the \<open>ORDER BY\<close> of the
  query.
\<close>

definition vector_results_by ::
  "document ordering \<Rightarrow> document list \<Rightarrow> real list \<Rightarrow> string \<Rightarrow> nat \<Rightarrow> (columns \<times> real) list" where
  "vector_results_by ob docs q contentType limit =
     map (\<lambda>d. (select_columns d, 1 - cosine_distance (embedding d) q))
       (take limit
         (ob (\<lambda>d. cosine_distance (embedding d) q)
           (filter (\<lambda>d. content_type d = contentType) docs)))"

definition vector_results :: "document list \<Rightarrow> real list \<Rightarrow> string \<Rightarrow> nat \<Rightarrow> (columns \<times> real) list" where
  "vector_results = vector_results_by order_by"

definition keyword_results_by ::
  "(columns \<times> real) ordering \<Rightarrow> text_search \<Rightarrow> document list \<Rightarrow> string \<Rightarrow> string \<Rightarrow> nat \<Rightarrow>
   (columns \<times> real) list" where
  "keyword_results_by ob ts docs pat contentType limit =
     take limit
       (descending ob snd
         (map (\<lambda>d. (select_columns d, rank_cd ts (content d) (tsquery_terms pat)))
           (filter (\<lambda>d. content_type d = contentType \<and> ts_match ts (content d) pat) docs)))"

definition keyword_results ::
  "text_search \<Rightarrow> document list \<Rightarrow> string \<Rightarrow> string \<Rightarrow> nat \<Rightarrow> (columns \<times> real) list" where
  "keyword_results = keyword_results_by order_by"

definition bm25_results ::
  "text_search \<Rightarrow> document list \<Rightarrow> string \<Rightarrow> string \<Rightarrow> nat \<Rightarrow> (columns \<times> real) list" where
  "bm25_results ts docs queryText contentType limit =
     take limit
       (order_by_desc snd
         (map (\<lambda>d. (select_columns d,
                    rank_cd_weighted ts (coalesce (xeto_spec_name d) []) (coalesce (xeto_library d) [])
                      (content d) queryText))
           (filter (\<lambda>d. content_type d = contentType) docs)))"

text \<open>
  The objects a search returns (\<open>result.rows.map(row => ({...}))\<close>). \<open>parseFloat(x || 0)\<close>
  of a number is that number. The fields taken over from the row carry the prefix \<open>res_\<close>.
  In the searches below the parameter \<open>embedding\<close> is written \<open>embedding'\<close>, and the
  weights in effect \<open>vectorWeight'\<close>, \<open>keywordWeight'\<close> and \<open>bm25Weight'\<close>: the plain
  names are the column and the option fields.
\<close>

record result =
  res_id :: nat
  res_content :: string
  res_contentType :: string
  res_metadata :: "string option"
  res_xetoSpecName :: "string option"
  res_xetoLibrary :: "string option"
  similarity :: real

record hybrid_result = result +
  vectorSimilarity :: real
  keywordSimilarity :: real

record combined_result = hybrid_result +
  bm25Similarity :: real

record hybrid_options =
  vectorWeight :: "real option"
  keywordWeight :: "real option"

record combined_options = hybrid_options +
  bm25Weight :: "real option"

subsection \<open>Vector strategy (vector-search.js)\<close>

definition VectorSearchStrategy_search_by ::
  "document ordering \<Rightarrow> database \<Rightarrow> real list \<Rightarrow> string \<Rightarrow> string \<Rightarrow> nat \<Rightarrow> nat option \<Rightarrow>
   store_error + result list" where
  "VectorSearchStrategy_search_by ob db embedding' embeddingModel contentType topK dimension =
     (case from_table db (tableName dimension) of
        Inl e \<Rightarrow> Inl e
      | Inr docs \<Rightarrow>
          Inr (map (\<lambda>(c, sim).
                 \<lparr>res_id = id_col c, res_content = content c, res_contentType = content_type c,
                  res_metadata = metadata c, res_xetoSpecName = xeto_spec_name c,
                  res_xetoLibrary = xeto_library c, similarity = sim\<rparr>)
               (vector_results_by ob docs embedding' contentType topK)))"

definition VectorSearchStrategy_search ::
  "database \<Rightarrow> real list \<Rightarrow> string \<Rightarrow> string \<Rightarrow> nat \<Rightarrow> nat option \<Rightarrow> store_error + result list" where
  "VectorSearchStrategy_search = VectorSearchStrategy_search_by order_by"

subsection \<open>Hybrid strategy (hybrid-search.js)\<close>

text \<open>The CTE \<open>combined_results\<close>: columns, the two weighted scores, the combined score.\<close>

definition hybrid_combined_results ::
  "(columns \<times> real) list \<Rightarrow> (columns \<times> real) list \<Rightarrow> real \<Rightarrow> real \<Rightarrow>
   (columns \<times> real \<times> real \<times> real) list" where
  "hybrid_combined_results v k w5 w6 =
     map (\<lambda>j. (coalesce_columns fst fst j,
                coalesce (left_col (Some \<circ> snd) j) 0 * w5,
                coalesce (right_col (Some \<circ> snd) j) 0 * w6,
                (coalesce (left_col (Some \<circ> snd) j) 0 * w5) +
                (coalesce (right_col (Some \<circ> snd) j) 0 * w6)))
       (full_outer_join (id_col \<circ> fst) (id_col \<circ> fst) v k)"

text \<open>
  The whole query: its rows are the columns, \<open>vector_similarity\<close>,
  \<open>keyword_similarity\<close> and \<open>similarity\<close>. The final select divides by the weights,
  which PostgreSQL refuses for a weight 0 as soon as there is a row to compute.
\<close>

definition hybrid_query_by ::
  "document ordering \<Rightarrow> (columns \<times> real) ordering \<Rightarrow> (columns \<times> real \<times> real \<times> real) ordering \<Rightarrow>
   text_search \<Rightarrow> document list \<Rightarrow> real list \<Rightarrow> string \<Rightarrow> nat \<Rightarrow> string \<Rightarrow> real \<Rightarrow> real \<Rightarrow>
   store_error + (columns \<times> real \<times> real \<times> real) list" where
  "hybrid_query_by obv obk obc ts docs embedding' contentType topK keywordPattern w5 w6 =
     (let selected =
            take topK
              (descending obc (\<lambda>(c, wv, wk, score). score)
                (hybrid_combined_results
                  (vector_results_by obv docs embedding' contentType (topK * 2))
                  (keyword_results_by obk ts docs keywordPattern contentType (topK * 2)) w5 w6))
      in if selected \<noteq> [] \<and> (w5 = 0 \<or> w6 = 0) then Inl DivisionByZero
         else Inr (map (\<lambda>(c, wv, wk, score). (c, wv / w5, wk / w6, score)) selected))"

text \<open>
  The search; its first three arguments are the orderings of the vector branch, of the
  lexical branch and of the final \<open>ORDER BY combined_score DESC\<close>.
\<close>

definition HybridSearchStrategy_search_by ::
  "document ordering \<Rightarrow> (columns \<times> real) ordering \<Rightarrow> (columns \<times> real \<times> real \<times> real) ordering \<Rightarrow>
   text_search \<Rightarrow> database \<Rightarrow> real list \<Rightarrow> string \<Rightarrow> string \<Rightarrow> string \<Rightarrow> nat \<Rightarrow> nat option \<Rightarrow>
   hybrid_options \<Rightarrow> store_error + hybrid_result list" where
  "HybridSearchStrategy_search_by obv obk obc ts db embedding' queryText embeddingModel contentType
       topK dimension options =
     (let vectorWeight' = js_or (vectorWeight options) 0.7;
          keywordWeight' = js_or (keywordWeight options) 0.3;
          keywords = extractKeywords queryText;
          keywordPattern = js_join '' | '' keywords
      in case from_table db (tableName dimension) of
           Inl e \<Rightarrow> Inl e
         | Inr docs \<Rightarrow>
             (case hybrid_query_by obv obk obc ts docs embedding' contentType topK keywordPattern
                     vectorWeight' keywordWeight' of
                Inl e \<Rightarrow> Inl e
              | Inr rows \<Rightarrow>
                  Inr (map (\<lambda>(c, vs, ks, score).
                         \<lparr>res_id = id_col c, res_content = content c, res_contentType = content_type c,
                          res_metadata = metadata c, res_xetoSpecName = xeto_spec_name c,
                          res_xetoLibrary = xeto_library c, similarity = score,
                          vectorSimilarity = vs, keywordSimilarity = ks\<rparr>) rows)))"

definition hybrid_query ::
  "text_search \<Rightarrow> document list \<Rightarrow> real list \<Rightarrow> string \<Rightarrow> nat \<Rightarrow> string \<Rightarrow> real \<Rightarrow> real \<Rightarrow>
   store_error + (columns \<times> real \<times> real \<times> real) list" where
  "hybrid_query = hybrid_query_by order_by order_by order_by"

definition HybridSearchStrategy_search ::
  "text_search \<Rightarrow> database \<Rightarrow> real list \<Rightarrow> string \<Rightarrow> string \<Rightarrow> string \<Rightarrow> nat \<Rightarrow> nat option \<Rightarrow>
   hybrid_options \<Rightarrow> store_error + hybrid_result list" where
  "HybridSearchStrategy_search = HybridSearchStrategy_search_by order_by order_by order_by"

subsection \<open>Combined strategy (combined-search.js)\<close>

text \<open>The CTE \<open>vk_join\<close>: columns, \<open>vector_similarity\<close> and \<open>keyword_similarity\<close>, each
  \<open>NULL\<close> where its branch has no row for the document.\<close>

definition vk_join ::
  "(columns \<times> real) list \<Rightarrow> (columns \<times> real) list \<Rightarrow> (columns \<times> real option \<times> real option) list" where
  "vk_join v k =
     map (\<lambda>j. (coalesce_columns fst fst j, left_col (Some \<circ> snd) j, right_col (Some \<circ> snd) j))
       (full_outer_join (id_col \<circ> fst) (id_col \<circ> fst) v k)"

text \<open>The CTE \<open>combined_results\<close>: columns, the three weighted scores, the combined score.\<close>

definition combined_results ::
  "(columns \<times> real option \<times> real option) list \<Rightarrow> (columns \<times> real) list \<Rightarrow> real \<Rightarrow> real \<Rightarrow> real \<Rightarrow>
   (columns \<times> real \<times> real \<times> real \<times> real) list" where
  "combined_results vk b w6 w7 w8 =
     map (\<lambda>j. (coalesce_columns fst fst j,
                coalesce (left_col (fst \<circ> snd) j) 0 * w6,
                coalesce (left_col (snd \<circ> snd) j) 0 * w7,
                coalesce (right_col (Some \<circ> snd) j) 0 * w8,
                (coalesce (left_col (fst \<circ> snd) j) 0 * w6) +
                (coalesce (left_col (snd \<circ> snd) j) 0 * w7) +
                (coalesce (right_col (Some \<circ> snd) j) 0 * w8)))
       (full_outer_join (id_col \<circ> fst) (id_col \<circ> fst) vk b)"

text \<open>The CTE \<open>phrase_boosted\<close>: the rows of \<open>combined_results\<close> with \<open>boosted_score\<close>.\<close>

definition phrase_boosted ::
  "(columns \<times> real \<times> real \<times> real \<times> real) list \<Rightarrow> string \<Rightarrow>
   (columns \<times> real \<times> real \<times> real \<times> real \<times> real) list" where
  "phrase_boosted cr queryText =
     map (\<lambda>(c, wv, wk, wb, score).
            (c, wv, wk, wb, score,
             if ilike (content c) (''%'' @ queryText @ ''%'') then score * 1.2 else score)) cr"

definition combined_query ::
  "text_search \<Rightarrow> document list \<Rightarrow> real list \<Rightarrow> string \<Rightarrow> nat \<Rightarrow> string \<Rightarrow> string \<Rightarrow>
   real \<Rightarrow> real \<Rightarrow> real \<Rightarrow> store_error + (columns \<times> real \<times> real \<times> real \<times> real) list" where
  "combined_query ts docs embedding' contentType topK keywordPattern queryText w6 w7 w8 =
     (let selected =
            take topK
              (order_by_desc (\<lambda>(c, wv, wk, wb, score, boosted). boosted)
                (phrase_boosted
                  (combined_results
                    (vk_join (vector_results docs embedding' contentType (topK * 3))
                             (keyword_results ts docs keywordPattern contentType (topK * 3)))
                    (bm25_results ts docs queryText contentType (topK * 3)) w6 w7 w8)
                  queryText))
      in if selected \<noteq> [] \<and> (w6 = 0 \<or> w7 = 0 \<or> w8 = 0) then Inl DivisionByZero
         else Inr (map (\<lambda>(c, wv, wk, wb, score, boosted). (c, wv / w6, wk / w7, wb / w8, boosted))
                    selected))"

definition CombinedSearchStrategy_search ::
  "text_search \<Rightarrow> database \<Rightarrow> real list \<Rightarrow> string \<Rightarrow> string \<Rightarrow> string \<Rightarrow> nat \<Rightarrow> nat option \<Rightarrow>
   combined_options \<Rightarrow> store_error + combined_result list" where
  "CombinedSearchStrategy_search ts db embedding' queryText embeddingModel contentType topK dimension
       options =
     (let vectorWeight' = js_or (vectorWeight options) 0.5;
          keywordWeight' = js_or (keywordWeight options) 0.3;
          bm25Weight' = js_or (bm25Weight options) 0.2;
          keywords = combined_extractKeywords queryText;
          keywordPattern = js_join '' | '' keywords
      in case from_table db (tableName dimension) of
           Inl e \<Rightarrow> Inl e
         | Inr docs \<Rightarrow>
             (case combined_query ts docs embedding' contentType topK keywordPattern queryText
                     vectorWeight' keywordWeight' bm25Weight' of
                Inl e \<Rightarrow> Inl e
              | Inr rows \<Rightarrow>
                  Inr (map (\<lambda>(c, vs, ks, bs, score).
                         \<lparr>res_id = id_col c, res_content = content c, res_contentType = content_type c,
                          res_metadata = metadata c, res_xetoSpecName = xeto_spec_name c,
                          res_xetoLibrary = xeto_library c, similarity = score,
                          vectorSimilarity = vs, keywordSimilarity = ks,
                          bm25Similarity = bs\<rparr>) rows)))"

section \<open>Benchmark orchestrator (scripts/rag-benchmark.js)\<close>

definition getEmbeddingDimension :: "string \<Rightarrow> nat option" where
  "getEmbeddingDimension model =
     (if js_includes model ''text-embedding-3-small'' \<or> js_includes model ''text-embedding-004''
      then Some 1536
      else if js_includes model ''text-embedding-3-large'' then Some 3072
      else if js_includes model ''gemini-embedding'' then Some 768
      else None)"

text \<open>
  \<open>benchmarkQuery\<close>, as far as retrieval goes: it hands the width of the embedding model
  to the strategy's \<open>search\<close> (here a function of the width); an error of the search
  leaves \<open>benchmarkQuery\<close> as it is.
\<close>

definition benchmarkQuery :: "(nat option \<Rightarrow> store_error + 'r) \<Rightarrow> string \<Rightarrow> store_error + 'r" where
  "benchmarkQuery search embeddingModel = search (getEmbeddingDimension embeddingModel)"

text \<open>
  One round of the loop over the embedding models in \<open>runBenchmark\<close>: a model with no
  width is logged as skipped and the loop goes on; for any other model the query is
  benchmarked, and an error of \<open>benchmarkQuery\<close> is caught and recorded as a failed result.
\<close>

datatype 'r benchmark_entry = Skipping string | Succeeded 'r | Failed store_error

definition runBenchmark_model :: "(nat option \<Rightarrow> store_error + 'r) \<Rightarrow> string \<Rightarrow> 'r benchmark_entry" where
  "runBenchmark_model search embeddingModel =
     (case getEmbeddingDimension embeddingModel of
        None \<Rightarrow> Skipping embeddingModel
      | Some embeddingDimension \<Rightarrow>
          (case benchmarkQuery search embeddingModel of
             Inl e \<Rightarrow> Failed e
           | Inr r \<Rightarrow> Succeeded r))"

section \<open>A small store for the examples\<close>

text \<open>
  Two rows of the shard \<open>documents_768\<close>; the embeddings are cut to two components to
  keep the examples readable. \<open>plain_search\<close> stands in for the full-text search of
  the store: a term matches a text that contains it, any match ranks 0.1, and the
  field-weighted rank is 0.
\<close>

definition doc_co2 :: document where
  "doc_co2 =
     \<lparr>id_col = 1, content = ''CO2-Sensor: measures carbon dioxide'', content_type = ''xeto'',
      metadata = None, xeto_spec_name = Some ''Co2Sensor'', xeto_library = Some ''ph.points'',
      embedding_model = ''gemini_gemini-embedding'', embedding = [4 / 5, 3 / 5]\<rparr>"

definition doc_pressure :: document where
  "doc_pressure =
     \<lparr>id_col = 2, content = ''Pressure sensor point'', content_type = ''xeto'',
      metadata = None, xeto_spec_name = Some ''PressureSensor'', xeto_library = Some ''ph.points'',
      embedding_model = ''gemini_gemini-embedding'', embedding = [3 / 5, 4 / 5]\<rparr>"

definition example_db :: database where
  "example_db name = (if name = ''documents_768'' then Some [doc_co2, doc_pressure] else None)"

definition plain_search :: text_search where
  "plain_search =
     \<lparr>lexeme_match = (\<lambda>txt term. js_includes (toLowerCase txt) term),
      rank_cd = (\<lambda>txt terms. 1 / 10),
      rank_cd_weighted = (\<lambda>name library txt queryText. 0)\<rparr>"

definition no_options :: hybrid_options where
  "no_options = \<lparr>vectorWeight = None, keywordWeight = None\<rparr>"

definition no_combined_options :: combined_options where
  "no_combined_options = \<lparr>vectorWeight = None, keywordWeight = None, bm25Weight = None\<rparr>"

section \<open>Properties of the Keyword Extractor\<close>

lemma set_foldl_new_Set:
  "set (foldl (\<lambda>acc x. if x \<in> set acc then acc else acc @ [x]) acc xs) = set acc \<union> set xs"
  by (induction xs arbitrary: acc) auto

lemma distinct_foldl_new_Set:
  "distinct acc \<Longrightarrow> distinct (foldl (\<lambda>acc x. if x \<in> set acc then acc else acc @ [x]) acc xs)"
  by (induction xs arbitrary: acc) auto

lemma set_new_Set: "set (new_Set xs) = set xs"
  by (simp add: new_Set_def set_foldl_new_Set)

lemma distinct_new_Set: "distinct (new_Set xs)"
  by (simp add: new_Set_def distinct_foldl_new_Set)

lemma takeWhile_segment:
  assumes "\<forall>c\<in>set t. \<not> sep c" and "post = [] \<or> sep (hd post)"
  shows "takeWhile (\<lambda>c. \<not> sep c) (t @ post) = t"
    and "dropWhile (\<lambda>c. \<not> sep c) (t @ post) = post"
proof -
  have "takeWhile (\<lambda>c. \<not> sep c) post = []" using assms(2) by (cases post) auto
  then show "takeWhile (\<lambda>c. \<not> sep c) (t @ post) = t" using assms(1)
    by (simp add: takeWhile_append2)
  have "dropWhile (\<lambda>c. \<not> sep c) post = post" using assms(2) by (cases post) auto
  then show "dropWhile (\<lambda>c. \<not> sep c) (t @ post) = post" using assms(1)
    by (simp add: dropWhile_append2)
qed

lemma js_split_runs_last:
  "dropWhile (\<lambda>c. \<not> sep c) s = [] \<Longrightarrow> js_split_runs sep s = [takeWhile (\<lambda>c. \<not> sep c) s]"
  by (subst js_split_runs.simps) (simp only: Let_def refl if_True)

lemma js_split_runs_more:
  "dropWhile (\<lambda>c. \<not> sep c) s \<noteq> [] \<Longrightarrow>
   js_split_runs sep s =
     takeWhile (\<lambda>c. \<not> sep c) s # js_split_runs sep (dropWhile sep (dropWhile (\<lambda>c. \<not> sep c) s))"
  by (subst js_split_runs.simps) (simp only: Let_def if_False)

lemma js_split_runs_first: "takeWhile (\<lambda>c. \<not> sep c) s \<in> set (js_split_runs sep s)"
proof (cases "dropWhile (\<lambda>c. \<not> sep c) s = []")
  case True
  from js_split_runs_last [OF this] show ?thesis by simp
next
  case False
  from js_split_runs_more [OF this] show ?thesis by simp
qed

lemma js_split_runs_sound:
  "t \<in> set (js_split_runs sep s) \<Longrightarrow>
     \<exists>pre post. s = pre @ t @ post \<and> (\<forall>c\<in>set t. \<not> sep c) \<and>
       (pre = [] \<or> sep (last pre)) \<and> (post = [] \<or> sep (hd post))"
proof (induction sep s rule: js_split_runs.induct)
  case (1 sep s)
  define tok where "tok = takeWhile (\<lambda>c. \<not> sep c) s"
  define rest where "rest = dropWhile (\<lambda>c. \<not> sep c) s"
  have s: "s = tok @ rest" by (simp add: tok_def rest_def)
  have tok: "\<forall>c\<in>set tok. \<not> sep c" unfolding tok_def by (auto dest: set_takeWhileD)
  have hd_rest: "rest = [] \<or> sep (hd rest)"
    using hd_dropWhile [of "\<lambda>c. \<not> sep c" s] by (auto simp: rest_def)
  show ?case
  proof (cases "rest = []")
    case True
    then have "t = tok" using "1.prems" js_split_runs_last [of sep s] by (simp only: tok_def rest_def) simp
    then show ?thesis using s tok True by (intro exI [of _ "[]"] exI [of _ rest]) simp
  next
    case False
    then have mem: "t = tok \<or> t \<in> set (js_split_runs sep (dropWhile sep rest))"
      using "1.prems" js_split_runs_more [of sep s] by (simp only: tok_def rest_def) simp
    show ?thesis
    proof (cases "t = tok")
      case True
      then show ?thesis using s tok hd_rest by (intro exI [of _ "[]"] exI [of _ rest]) simp
    next
      case neq: False
      with mem have "t \<in> set (js_split_runs sep (dropWhile sep rest))" by simp
      from "1.IH" [OF tok_def rest_def False this]
      obtain pre post where d: "dropWhile sep rest = pre @ t @ post"
        and t: "\<forall>c\<in>set t. \<not> sep c" and pre: "pre = [] \<or> sep (last pre)"
        and post: "post = [] \<or> sep (hd post)" by blast
      define run where "run = takeWhile sep rest"
      have run_ne: "run \<noteq> []" using False hd_rest by (cases rest) (auto simp: run_def)
      have run_sep: "\<forall>c\<in>set run. sep c" unfolding run_def by (auto dest: set_takeWhileD)
      have "rest = run @ pre @ t @ post" using d by (metis run_def takeWhile_dropWhile_id)
      then have s': "s = (tok @ run @ pre) @ t @ post" using s by simp
      have "sep (last (tok @ run @ pre))"
      proof (cases "pre = []")
        case True
        then show ?thesis using run_ne run_sep by (simp add: last_append)
      next
        case False
        then show ?thesis using pre by (simp add: last_append)
      qed
      then show ?thesis using s' t post by blast
    qed
  qed
qed

lemma js_split_runs_complete:
  "s = pre @ t @ post \<Longrightarrow> t \<noteq> [] \<Longrightarrow> \<forall>c\<in>set t. \<not> sep c \<Longrightarrow>
   pre = [] \<or> sep (last pre) \<Longrightarrow> post = [] \<or> sep (hd post) \<Longrightarrow>
   t \<in> set (js_split_runs sep s)"
proof (induction sep s arbitrary: pre rule: js_split_runs.induct)
  case (1 sep s)
  define tok where "tok = takeWhile (\<lambda>c. \<not> sep c) s"
  define rest where "rest = dropWhile (\<lambda>c. \<not> sep c) s"
  show ?case
  proof (cases "pre = []")
    case True
    then have "tok = t" using "1.prems" takeWhile_segment(1) [of t sep post] by (simp add: tok_def)
    then show ?thesis using js_split_runs_first [of sep s] by (simp add: tok_def)
  next
    case False
    then have lastp: "sep (last pre)" using "1.prems" by simp
    have ex: "\<exists>c\<in>set pre. sep c" using False lastp last_in_set by blast
    then obtain c where c: "c \<in> set pre" "\<not> \<not> sep c" by blast
    have dw: "rest = dropWhile (\<lambda>c. \<not> sep c) pre @ t @ post"
      unfolding rest_def "1.prems"(1) using c by (rule dropWhile_append1)
    define r1 where "r1 = dropWhile (\<lambda>c. \<not> sep c) pre"
    have r1_ne: "r1 \<noteq> []" using ex by (simp add: r1_def)
    have rest_ne: "rest \<noteq> []" using dw r1_ne by (simp add: r1_def)
    have last_r1: "last r1 = last pre"
      using r1_ne by (metis r1_def last_appendR takeWhile_dropWhile_id)
    have hd_t: "\<not> sep (hd t)" using "1.prems"(2,3) by (cases t) auto
    have "\<exists>pre'. dropWhile sep rest = pre' @ t @ post \<and> (pre' = [] \<or> sep (last pre'))"
    proof (cases "dropWhile sep r1 = []")
      case True
      then have "\<forall>c\<in>set r1. sep c" by (simp add: dropWhile_eq_Nil_conv)
      then have "dropWhile sep rest = dropWhile sep (t @ post)"
        using dw by (simp add: r1_def [symmetric] dropWhile_append2)
      also have "\<dots> = t @ post" using hd_t "1.prems"(2) by (cases t) auto
      finally show ?thesis by (intro exI [of _ "[]"]) simp
    next
      case False
      then obtain c' where "c' \<in> set r1" "\<not> sep c'" by (auto simp: dropWhile_eq_Nil_conv)
      then have "dropWhile sep (r1 @ t @ post) = dropWhile sep r1 @ t @ post"
        by (rule dropWhile_append1)
      then have "dropWhile sep rest = dropWhile sep r1 @ t @ post"
        using dw by (simp add: r1_def [symmetric])
      moreover have "last (dropWhile sep r1) = last r1"
        using False by (metis last_appendR takeWhile_dropWhile_id)
      ultimately show ?thesis using last_r1 lastp by auto
    qed
    then obtain pre' where d: "dropWhile sep rest = pre' @ t @ post"
      and p: "pre' = [] \<or> sep (last pre')" by blast
    have "t \<in> set (js_split_runs sep (dropWhile sep rest))"
      using "1.IH" [OF tok_def rest_def rest_ne d "1.prems"(2,3) p "1.prems"(5)] .
    then show ?thesis using rest_ne js_split_runs_more [of sep s]
      by (simp only: rest_def) simp
  qed
qed

lemma js_split_runs_tokens:
  "t \<noteq> [] \<Longrightarrow> t \<in> set (js_split_runs is_space_char s) \<longleftrightarrow> t \<in> spec_tokens s"
  unfolding spec_tokens_def
  using js_split_runs_sound [of t is_space_char s] js_split_runs_complete [of s _ t _ is_space_char]
  by (auto simp: list_ex_iff)

text \<open>
  Claim C4. For every input string, both copies of \<open>extractKeywords\<close> return, without
  repetition, exactly the set the specification describes: lowercase the input, strip
  the characters that are neither word characters nor whitespace, split on whitespace
  runs, drop the tokens of length at most 2 and the stop words. The empty input gives the
  empty set, and \<open>The Co2Sensor is a sensor.\<close> gives \<open>co2sensor\<close> and \<open>sensor\<close>.
\<close>

theorem extractKeywords_refines_spec:
  "set (extractKeywords text) = spec_extract text \<and>
   set (combined_extractKeywords text) = spec_extract text \<and>
   distinct (extractKeywords text) \<and> distinct (combined_extractKeywords text) \<and>
   set (extractKeywords []) = {} \<and>
   set (extractKeywords ''The Co2Sensor is a sensor.'') = {''co2sensor'', ''sensor''}"
proof -
  have stop: "set stopWords = spec_stop_words"
    by (simp add: stopWords_def spec_stop_words_def)
  have same: "combined_extractKeywords text = extractKeywords text"
    by (simp add: combined_extractKeywords_def extractKeywords_def)
  have tok: "t \<in> set (js_split_runs is_space_char s) \<longleftrightarrow> t \<in> spec_tokens s"
    if "2 < length t" for t s
  proof -
    from that have "t \<noteq> []" by auto
    then show ?thesis by (rule js_split_runs_tokens)
  qed
  have "set (extractKeywords text) = spec_extract text"
    unfolding extractKeywords_def spec_extract_def Let_def set_new_Set stop
    by (auto simp: tok not_le)
  moreover have "distinct (extractKeywords text)"
    by (simp add: extractKeywords_def distinct_new_Set)
  moreover have "extractKeywords [] = []"
    by code_simp
  moreover have "extractKeywords ''The Co2Sensor is a sensor.'' = [''co2sensor'', ''sensor'']"
    by code_simp
  ultimately show ?thesis using same by simp
qed

theorem extractKeywords_refines_spec_witness:
  "spec_extract ''The Co2Sensor is a sensor.'' = {''co2sensor'', ''sensor''} \<and>
   spec_extract ''Is it on?'' = {}"
proof -
  have "extractKeywords ''Is it on?'' = []"
    by code_simp
  then show ?thesis
    using extractKeywords_refines_spec [of "''The Co2Sensor is a sensor.''"]
      extractKeywords_refines_spec [of "''Is it on?''"]
    by simp
qed

section \<open>Properties of the Answer Grader\<close>

lemma countLoop_bound: "countLoop lowerText hasNegative kws n \<le> n + length kws"
proof (induction kws arbitrary: n)
  case Nil
  show ?case by simp
next
  case (Cons k kws)
  show ?case
  proof (cases "keywordCounts lowerText hasNegative k")
    case True
    then show ?thesis using Cons.IH [of "n + 1"] by simp
  next
    case False
    then show ?thesis using Cons.IH [of n] by simp
  qed
qed

text \<open>
  Claim C2, as the specification states it, does not hold: for the response
  \<open>I don't have information about pressure sensors.\<close> and the keyword \<open>pressure\<close> the
  grader returns 1, not 0.
\<close>

theorem grader_dont_have_counterexample:
  "countKeywordMatches (Some ''I don't have information about pressure sensors.'')
     (Some [''pressure'']) \<noteq> 0"
  by code_simp

text \<open>
  Claim C2, amended. None of the grader's negation phrases occurs in
  \<open>I don't have information about pressure sensors.\<close>, so the keyword \<open>pressure\<close> is counted
  on its presence alone and the grader returns 1. A response that denies with a phrase of
  the list, \<open>There is no information about pressure sensors.\<close>, is a pure negated match and
  gets 0.
\<close>

theorem grader_dont_have_counts:
  "\<not> hasNegativePattern (toLowerCase ''I don't have information about pressure sensors.'') \<and>
   countKeywordMatches (Some ''I don't have information about pressure sensors.'')
     (Some [''pressure'']) = 1 \<and>
   countKeywordMatches (Some ''There is no information about pressure sensors.'')
     (Some [''pressure'']) = 0"
  by code_simp

text \<open>
  Claim C7. For every response and every non-empty keyword list: when some negation
  phrase occurs in the lowercased response and, for every keyword, the response holds a
  negation phrase followed by \<open> about \<close>, \<open> on \<close> or \<open> regarding \<close> and the lowercased
  keyword, the grader returns 0. (A keyword that appears only inside such constructions
  appears inside one, which is all the grader looks at.)
\<close>

theorem grader_pure_negation_zero:
  assumes "kws \<noteq> []"
    and "hasNegativePattern (toLowerCase txt)"
    and "\<forall>keyword\<in>set kws. negativeContext (toLowerCase txt) keyword"
  shows "countKeywordMatches (Some txt) (Some kws) = 0"
  using assms by (simp add: countKeywordMatches_def Let_def list_all_iff)

theorem grader_pure_negation_zero_witness:
  "[''Pressure'', ''humidity''] \<noteq> [] \<and>
   hasNegativePattern (toLowerCase ''The context does not provide details. No data on humidity, no information regarding pressure.'') \<and>
   list_all (negativeContext (toLowerCase ''The context does not provide details. No data on humidity, no information regarding pressure.''))
     [''Pressure'', ''humidity''] \<and>
   countKeywordMatches (Some ''The context does not provide details. No data on humidity, no information regarding pressure.'')
     (Some [''Pressure'', ''humidity'']) = 0"
proof -
  have neg: "hasNegativePattern (toLowerCase ''The context does not provide details. No data on humidity, no information regarding pressure.'')"
    by code_simp
  have ctx: "list_all (negativeContext (toLowerCase ''The context does not provide details. No data on humidity, no information regarding pressure.''))
     [''Pressure'', ''humidity'']"
    by code_simp
  from ctx have "\<forall>keyword\<in>set [''Pressure'', ''humidity''].
      negativeContext (toLowerCase ''The context does not provide details. No data on humidity, no information regarding pressure.'') keyword"
    by (simp only: list_all_iff)
  from grader_pure_negation_zero [OF _ neg this] neg ctx show ?thesis by simp
qed

text \<open>
  Claim C10. The grader's result is a natural number between 0 and the length of the
  keyword list, so the percentage derived from it never exceeds 100; it is 0 whenever
  the response is \<open>null\<close> or empty or the keyword list is \<open>null\<close> or empty.
\<close>

theorem grader_count_bounded:
  "countKeywordMatches text keywords \<le> (case keywords of None \<Rightarrow> 0 | Some kws \<Rightarrow> length kws) \<and>
   (text = None \<or> text = Some [] \<or> keywords = None \<or> keywords = Some [] \<longrightarrow>
      countKeywordMatches text keywords = 0)"
  using countLoop_bound [of _ _ _ 0]
  by (auto simp: countKeywordMatches_def Let_def split: option.splits)

theorem grader_count_bounded_witness:
  "countKeywordMatches (Some ''The pressure sensor reads in Pa.'') (Some [''pressure'', ''voltage'']) = 1 \<and>
   countKeywordMatches (Some ''The pressure sensor reads in Pa.'') (Some [''pressure'', ''voltage'']) \<le> 2 \<and>
   countKeywordMatches (Some []) (Some [''pressure'']) = 0 \<and>
   countKeywordMatches None (Some [''pressure'']) = 0 \<and>
   countKeywordMatches (Some ''The pressure sensor reads in Pa.'') (Some []) = 0 \<and>
   countKeywordMatches (Some ''The pressure sensor reads in Pa.'') None = 0"
proof -
  have "countKeywordMatches (Some ''The pressure sensor reads in Pa.'') (Some [''pressure'', ''voltage'']) = 1"
    by code_simp
  then show ?thesis
    using grader_count_bounded [of "Some ''The pressure sensor reads in Pa.''" "Some [''pressure'', ''voltage'']"]
      grader_count_bounded [of "Some []" "Some [''pressure'']"]
      grader_count_bounded [of None "Some [''pressure'']"]
      grader_count_bounded [of "Some ''The pressure sensor reads in Pa.''" "Some []"]
      grader_count_bounded [of "Some ''The pressure sensor reads in Pa.''" None]
    by simp
qed

section \<open>Properties of the store primitives\<close>

text \<open>The queries and searches with the stable sort for every \<open>ORDER BY\<close>.\<close>

lemma descending_order_by: "descending order_by key rows = order_by_desc key rows"
  by (simp add: descending_def order_by_def order_by_desc_def)

lemma vector_results_stable:
  "vector_results docs q contentType limit =
     map (\<lambda>d. (select_columns d, 1 - cosine_distance (embedding d) q))
       (take limit
         (order_by (\<lambda>d. cosine_distance (embedding d) q)
           (filter (\<lambda>d. content_type d = contentType) docs)))"
  by (simp add: vector_results_def vector_results_by_def)

lemma keyword_results_stable:
  "keyword_results ts docs pat contentType limit =
     take limit
       (order_by_desc snd
         (map (\<lambda>d. (select_columns d, rank_cd ts (content d) (tsquery_terms pat)))
           (filter (\<lambda>d. content_type d = contentType \<and> ts_match ts (content d) pat) docs)))"
  by (simp add: keyword_results_def keyword_results_by_def descending_order_by)

lemma hybrid_query_stable:
  "hybrid_query ts docs q contentType topK keywordPattern w5 w6 =
     (let selected =
            take topK
              (order_by_desc (\<lambda>(c, wv, wk, score). score)
                (hybrid_combined_results
                  (vector_results docs q contentType (topK * 2))
                  (keyword_results ts docs keywordPattern contentType (topK * 2)) w5 w6))
      in if selected \<noteq> [] \<and> (w5 = 0 \<or> w6 = 0) then Inl DivisionByZero
         else Inr (map (\<lambda>(c, wv, wk, score). (c, wv / w5, wk / w6, score)) selected))"
  unfolding hybrid_query_def hybrid_query_by_def vector_results_def keyword_results_def
  by (simp add: descending_order_by)

lemma VectorSearchStrategy_search_stable:
  "VectorSearchStrategy_search db q embeddingModel contentType topK dimension =
     (case from_table db (tableName dimension) of
        Inl e \<Rightarrow> Inl e
      | Inr docs \<Rightarrow>
          Inr (map (\<lambda>(c, sim).
                 \<lparr>res_id = id_col c, res_content = content c, res_contentType = content_type c,
                  res_metadata = metadata c, res_xetoSpecName = xeto_spec_name c,
                  res_xetoLibrary = xeto_library c, similarity = sim\<rparr>)
               (vector_results docs q contentType topK)))"
  unfolding VectorSearchStrategy_search_def VectorSearchStrategy_search_by_def vector_results_def
  by (rule refl)

lemma HybridSearchStrategy_search_stable:
  "HybridSearchStrategy_search ts db q queryText embeddingModel contentType topK dimension options =
     (let vectorWeight' = js_or (vectorWeight options) 0.7;
          keywordWeight' = js_or (keywordWeight options) 0.3;
          keywords = extractKeywords queryText;
          keywordPattern = js_join '' | '' keywords
      in case from_table db (tableName dimension) of
           Inl e \<Rightarrow> Inl e
         | Inr docs \<Rightarrow>
             (case hybrid_query ts docs q contentType topK keywordPattern
                     vectorWeight' keywordWeight' of
                Inl e \<Rightarrow> Inl e
              | Inr rows \<Rightarrow>
                  Inr (map (\<lambda>(c, vs, ks, score).
                         \<lparr>res_id = id_col c, res_content = content c, res_contentType = content_type c,
                          res_metadata = metadata c, res_xetoSpecName = xeto_spec_name c,
                          res_xetoLibrary = xeto_library c, similarity = score,
                          vectorSimilarity = vs, keywordSimilarity = ks\<rparr>) rows)))"
  unfolding HybridSearchStrategy_search_def HybridSearchStrategy_search_by_def hybrid_query_def
  by (rule refl)

lemma tableName_768: "tableName (Some 768) = ''documents_768''"
  by code_simp

lemma tableName_null: "tableName None = ''documents_null''"
  by code_simp

lemma example_db_768: "example_db (tableName (Some 768)) = Some [doc_co2, doc_pressure]"
  by (simp add: tableName_768 example_db_def)

lemma example_distances:
  "cosine_distance [4 / 5, 3 / 5] [4 / 5, 3 / 5] = 0"
  "cosine_distance [3 / 5, 4 / 5] [4 / 5, 3 / 5] = 1 / 25"
  by (simp_all add: cosine_distance_def dot_def)

lemma dot_self_nonneg: "0 \<le> dot v v"
  by (induction v) (simp_all add: dot_def)

lemma cosine_distance_self: "dot v v \<noteq> 0 \<Longrightarrow> cosine_distance v v = 0"
  using dot_self_nonneg [of v] by (simp add: cosine_distance_def real_sqrt_mult_self)

lemma js_or_nonzero: "d \<noteq> 0 \<Longrightarrow> js_or x d \<noteq> 0"
  by (auto simp: js_or_def split: option.splits)

text \<open>
  What every ordering of the store gives: the rows it was given, in ascending order of the
  key. The stable sort is one such ordering. Two orderings agree on rows whose keys are
  all different.
\<close>

lemma is_order_by_mset: "is_order_by ob \<Longrightarrow> mset (ob key rows) = mset rows"
  by (simp add: is_order_by_def)

lemma is_order_by_set: "is_order_by ob \<Longrightarrow> set (ob key rows) = set rows"
  by (metis is_order_by_mset set_mset_mset)

lemma is_order_by_sorted: "is_order_by ob \<Longrightarrow> sorted (map key (ob key rows))"
  by (simp add: is_order_by_def)

lemma is_order_by_Nil: "is_order_by ob \<Longrightarrow> ob key [] = []"
  using is_order_by_mset [of ob key "[]"] by simp

lemma is_order_by_stable: "is_order_by order_by"
  by (simp add: is_order_by_def order_by_def)

lemma is_order_by_unique:
  assumes "is_order_by ob" and "is_order_by ob'" and "distinct (map key rows)"
  shows "ob key rows = ob' key rows"
proof -
  have m: "mset (ob key rows) = mset rows" "mset (ob' key rows) = mset rows"
    using assms(1,2) by (simp_all add: is_order_by_mset)
  have inj: "inj_on key (set rows)" using assms(3) by (simp add: distinct_map)
  have d: "distinct (map key (ob key rows))" "distinct (map key (ob' key rows))"
    using assms(3) m by (metis mset_map mset_eq_imp_distinct_iff)+
  have s: "set (map key (ob key rows)) = set (map key (ob' key rows))"
    using m by (metis mset_map set_mset_mset)
  have "map key (ob key rows) = map key (ob' key rows)"
    using is_order_by_sorted [OF assms(1)] d(1) is_order_by_sorted [OF assms(2)] d(2) s
    by (rule sorted_distinct_set_unique)
  moreover have "inj_on key (set (ob key rows) \<union> set (ob' key rows))"
    using inj by (simp add: is_order_by_set [OF assms(1)] is_order_by_set [OF assms(2)])
  ultimately show ?thesis by (simp add: inj_on_map_eq_map)
qed

lemma permuted_map:
  assumes "mset ys = mset (map h xs)"
  shows "\<exists>zs. mset zs = mset xs \<and> ys = map h zs"
proof -
  have "list_all2 (\<lambda>y x. y = h x) (map h xs) xs"
    by (simp add: list_all2_map1 list_all2_same)
  from list_all2_reorder_left_invariance [OF this assms]
  obtain zs where "list_all2 (\<lambda>y x. y = h x) ys zs" and "mset zs = mset xs" by blast
  have "ys = map h zs"
    using \<open>list_all2 (\<lambda>y x. y = h x) ys zs\<close>
    by (induction ys zs rule: list_all2_induct) simp_all
  with \<open>mset zs = mset xs\<close> show ?thesis by blast
qed

lemma vectors_ok_example: "vectors_ok [4 / 5, 3 / 5] [doc_co2, doc_pressure]"
  by (simp add: vectors_ok_def dot_def doc_co2_def doc_pressure_def)

section \<open>Properties of the Vector strategy\<close>

lemma VectorSearchStrategy_search_by_rows:
  assumes "db (tableName dimension) = Some docs"
  shows "VectorSearchStrategy_search_by ob db q embeddingModel contentType topK dimension =
    Inr (map (\<lambda>d. \<lparr>res_id = id_col d, res_content = content d,
                   res_contentType = content_type d, res_metadata = metadata d,
                   res_xetoSpecName = xeto_spec_name d, res_xetoLibrary = xeto_library d,
                   similarity = 1 - cosine_distance (embedding d) q\<rparr>)
          (take topK (ob (\<lambda>d. cosine_distance (embedding d) q)
                    (filter (\<lambda>d. content_type d = contentType) docs))))"
  using assms
  by (simp add: VectorSearchStrategy_search_by_def vector_results_by_def from_table_def
      select_columns_def comp_def)

text \<open>
  Claim C5. On an existing shard, for a query vector and embeddings for which the cosine
  distance is defined (non-zero vectors of one width, \<open>vectors_ok\<close>), and whatever
  ordering the store uses for \<open>ORDER BY\<close>: the Vector strategy returns a list of at most
  \<open>topK\<close> candidates in descending order of similarity. Each candidate stands for a row
  of the shard with the requested content type, and its similarity is 1 minus the cosine
  distance between that row's embedding and the query vector; for a row whose embedding
  is the query vector itself the similarity is 1.
\<close>

theorem vector_search_ranked:
  assumes "db (tableName dimension) = Some docs"
    and "vectors_ok q docs"
    and "is_order_by ob"
  shows "\<exists>rs ds. VectorSearchStrategy_search_by ob db q embeddingModel contentType topK dimension = Inr rs \<and>
           length rs \<le> topK \<and>
           sorted_wrt (\<lambda>a b. similarity a \<ge> similarity b) rs \<and>
           list_all2 (\<lambda>r d. d \<in> set docs \<and> content_type d = contentType \<and>
                        res_id r = id_col d \<and> res_content r = content d \<and>
                        similarity r = 1 - cosine_distance (embedding d) q \<and>
                        (embedding d = q \<longrightarrow> similarity r = 1)) rs ds"
proof -
  define ds where "ds = take topK (ob (\<lambda>d. cosine_distance (embedding d) q)
           (filter (\<lambda>d. content_type d = contentType) docs))"
  define conv where "conv = (\<lambda>d::document.
       \<lparr>res_id = id_col d, res_content = content d, res_contentType = content_type d,
        res_metadata = metadata d, res_xetoSpecName = xeto_spec_name d,
        res_xetoLibrary = xeto_library d, similarity = 1 - cosine_distance (embedding d) q\<rparr>)"
  have nz: "dot q q \<noteq> 0" using assms(2) by (simp add: vectors_ok_def)
  have run: "VectorSearchStrategy_search_by ob db q embeddingModel contentType topK dimension = Inr (map conv ds)"
    using assms(1)
    by (simp add: VectorSearchStrategy_search_by_def from_table_def vector_results_by_def ds_def
        conv_def select_columns_def comp_def)
  have len: "length (map conv ds) \<le> topK" by (simp add: ds_def)
  have "sorted (map (\<lambda>d. cosine_distance (embedding d) q) (ob (\<lambda>d. cosine_distance (embedding d) q)
           (filter (\<lambda>d. content_type d = contentType) docs)))"
    using assms(3) by (rule is_order_by_sorted)
  then have "sorted_wrt (\<lambda>a b. cosine_distance (embedding a) q \<le> cosine_distance (embedding b) q) ds"
    unfolding ds_def by (intro sorted_wrt_take) (simp add: sorted_map)
  then have srt: "sorted_wrt (\<lambda>a b. similarity a \<ge> similarity b) (map conv ds)"
    by (simp add: sorted_wrt_map conv_def)
  have mem: "d \<in> set docs \<and> content_type d = contentType" if "d \<in> set ds" for d
    using that in_set_takeD [of d topK] is_order_by_set [OF assms(3)] by (fastforce simp: ds_def)
  have "list_all2 (\<lambda>r d. d \<in> set docs \<and> content_type d = contentType \<and>
                        res_id r = id_col d \<and> res_content r = content d \<and>
                        similarity r = 1 - cosine_distance (embedding d) q \<and>
                        (embedding d = q \<longrightarrow> similarity r = 1)) (map conv ds) ds"
    using mem nz
    by (auto simp: list_all2_map1 conv_def cosine_distance_self intro!: list_all2_same [THEN iffD2])
  with run len srt show ?thesis by blast
qed

theorem vector_search_ranked_witness:
  "example_db (tableName (Some 768)) = Some [doc_co2, doc_pressure] \<and>
   vectors_ok [4 / 5, 3 / 5] [doc_co2, doc_pressure] \<and>
   is_order_by (order_by :: document ordering) \<and>
   VectorSearchStrategy_search_by order_by example_db [4 / 5, 3 / 5] ''gemini-embedding-exp'' ''xeto'' 2 (Some 768) =
     Inr [\<lparr>res_id = 1, res_content = ''CO2-Sensor: measures carbon dioxide'', res_contentType = ''xeto'',
           res_metadata = None, res_xetoSpecName = Some ''Co2Sensor'', res_xetoLibrary = Some ''ph.points'',
           similarity = 1\<rparr>,
          \<lparr>res_id = 2, res_content = ''Pressure sensor point'', res_contentType = ''xeto'',
           res_metadata = None, res_xetoSpecName = Some ''PressureSensor'', res_xetoLibrary = Some ''ph.points'',
           similarity = 24 / 25\<rparr>] \<and>
   (\<exists>rs ds. VectorSearchStrategy_search_by order_by example_db [4 / 5, 3 / 5] ''gemini-embedding-exp'' ''xeto'' 2 (Some 768) = Inr rs \<and>
           length rs \<le> 2 \<and>
           sorted_wrt (\<lambda>a b. similarity a \<ge> similarity b) rs \<and>
           list_all2 (\<lambda>r d. d \<in> set [doc_co2, doc_pressure] \<and> content_type d = ''xeto'' \<and>
                        res_id r = id_col d \<and> res_content r = content d \<and>
                        similarity r = 1 - cosine_distance (embedding d) [4 / 5, 3 / 5] \<and>
                        (embedding d = [4 / 5, 3 / 5] \<longrightarrow> similarity r = 1)) rs ds)"
proof -
  have "VectorSearchStrategy_search_by order_by example_db [4 / 5, 3 / 5] ''gemini-embedding-exp'' ''xeto'' 2 (Some 768) =
     Inr [\<lparr>res_id = 1, res_content = ''CO2-Sensor: measures carbon dioxide'', res_contentType = ''xeto'',
           res_metadata = None, res_xetoSpecName = Some ''Co2Sensor'', res_xetoLibrary = Some ''ph.points'',
           similarity = 1\<rparr>,
          \<lparr>res_id = 2, res_content = ''Pressure sensor point'', res_contentType = ''xeto'',
           res_metadata = None, res_xetoSpecName = Some ''PressureSensor'', res_xetoLibrary = Some ''ph.points'',
           similarity = 24 / 25\<rparr>]"
    by (simp add: VectorSearchStrategy_search_by_def from_table_def example_db_768 vector_results_by_def
        order_by_def doc_co2_def doc_pressure_def select_columns_def example_distances)
  moreover note example_db_768 vectors_ok_example is_order_by_stable [where 'a = document]
  moreover note vector_search_ranked [where db = example_db and dimension = "Some 768"
      and q = "[4 / 5, 3 / 5]" and embeddingModel = "''gemini-embedding-exp''"
      and contentType = "''xeto''" and topK = 2 and ob = order_by,
      OF example_db_768 vectors_ok_example is_order_by_stable]
  ultimately show ?thesis by (intro conjI)
qed

section \<open>Properties of the weights\<close>

text \<open>
  Claim C9. For the Hybrid and the Combined strategy, an options argument that sets a
  branch weight to 0 gives the same search as one that leaves the weight out, which is
  the search with the default weight (0.7 and 0.3 for Hybrid; 0.5, 0.3 and 0.2 for
  Combined). The weight a search works with is never 0.
\<close>

theorem zero_weight_means_default:
  "HybridSearchStrategy_search ts db e q m ct k dimension (opts\<lparr>vectorWeight := Some 0\<rparr>) =
     HybridSearchStrategy_search ts db e q m ct k dimension (opts\<lparr>vectorWeight := None\<rparr>) \<and>
   HybridSearchStrategy_search ts db e q m ct k dimension (opts\<lparr>vectorWeight := Some 0\<rparr>) =
     HybridSearchStrategy_search ts db e q m ct k dimension (opts\<lparr>vectorWeight := Some 0.7\<rparr>) \<and>
   HybridSearchStrategy_search ts db e q m ct k dimension (opts\<lparr>keywordWeight := Some 0\<rparr>) =
     HybridSearchStrategy_search ts db e q m ct k dimension (opts\<lparr>keywordWeight := None\<rparr>) \<and>
   HybridSearchStrategy_search ts db e q m ct k dimension (opts\<lparr>keywordWeight := Some 0\<rparr>) =
     HybridSearchStrategy_search ts db e q m ct k dimension (opts\<lparr>keywordWeight := Some 0.3\<rparr>) \<and>
   CombinedSearchStrategy_search ts db e q m ct k dimension (copts\<lparr>vectorWeight := Some 0\<rparr>) =
     CombinedSearchStrategy_search ts db e q m ct k dimension (copts\<lparr>vectorWeight := None\<rparr>) \<and>
   CombinedSearchStrategy_search ts db e q m ct k dimension (copts\<lparr>vectorWeight := Some 0\<rparr>) =
     CombinedSearchStrategy_search ts db e q m ct k dimension (copts\<lparr>vectorWeight := Some 0.5\<rparr>) \<and>
   CombinedSearchStrategy_search ts db e q m ct k dimension (copts\<lparr>keywordWeight := Some 0\<rparr>) =
     CombinedSearchStrategy_search ts db e q m ct k dimension (copts\<lparr>keywordWeight := None\<rparr>) \<and>
   CombinedSearchStrategy_search ts db e q m ct k dimension (copts\<lparr>keywordWeight := Some 0\<rparr>) =
     CombinedSearchStrategy_search ts db e q m ct k dimension (copts\<lparr>keywordWeight := Some 0.3\<rparr>) \<and>
   CombinedSearchStrategy_search ts db e q m ct k dimension (copts\<lparr>bm25Weight := Some 0\<rparr>) =
     CombinedSearchStrategy_search ts db e q m ct k dimension (copts\<lparr>bm25Weight := None\<rparr>) \<and>
   CombinedSearchStrategy_search ts db e q m ct k dimension (copts\<lparr>bm25Weight := Some 0\<rparr>) =
     CombinedSearchStrategy_search ts db e q m ct k dimension (copts\<lparr>bm25Weight := Some 0.2\<rparr>) \<and>
   js_or (vectorWeight opts) 0.7 \<noteq> 0 \<and> js_or (keywordWeight opts) 0.3 \<noteq> 0 \<and>
   js_or (vectorWeight copts) 0.5 \<noteq> 0 \<and> js_or (keywordWeight copts) 0.3 \<noteq> 0 \<and>
   js_or (bm25Weight copts) 0.2 \<noteq> 0"
  by (simp add: HybridSearchStrategy_search_stable CombinedSearchStrategy_search_def js_or_def
      js_or_nonzero split: option.splits)

section \<open>Properties of the benchmark orchestrator\<close>

lemma getEmbeddingDimension_range:
  "getEmbeddingDimension m = Some d \<Longrightarrow> d = 768 \<or> d = 1536 \<or> d = 3072"
  by (auto simp: getEmbeddingDimension_def split: if_splits)

lemma no_width_for_embedding_001: "getEmbeddingDimension ''embedding-001'' = None"
  by code_simp

text \<open>
  Claim C8, as the specification states it, does not hold. The model name
  \<open>embedding-001\<close> has no supported width. The orchestrator logs it as skipped and goes
  on, whatever the search would do: no error is raised. The strategies do not check the
  width: the Vector and the Hybrid strategy called with the width of that model ask the
  store for the table \<open>documents_null\<close>, and the error is the store's.
\<close>

theorem unsupported_width_counterexample:
  "getEmbeddingDimension ''embedding-001'' = None \<and>
   (\<forall>search. runBenchmark_model search ''embedding-001'' =
      (Skipping ''embedding-001'' :: unit benchmark_entry)) \<and>
   VectorSearchStrategy_search example_db [4 / 5, 3 / 5] ''embedding-001'' ''xeto'' 1
     (getEmbeddingDimension ''embedding-001'') = Inl (UndefinedTable ''documents_null'') \<and>
   HybridSearchStrategy_search plain_search example_db [4 / 5, 3 / 5] ''pressure'' ''embedding-001''
     ''xeto'' 1 (getEmbeddingDimension ''embedding-001'') no_options =
       Inl (UndefinedTable ''documents_null'')"
  by (simp add: no_width_for_embedding_001 runBenchmark_model_def VectorSearchStrategy_search_stable
      HybridSearchStrategy_search_stable from_table_def tableName_null example_db_def)

text \<open>
  Claim C8, amended. For every embedding model whose width is not one of the supported
  widths 768, 1536 and 3072, the orchestrator's loop logs the model as skipped and goes
  on to the next model, without calling the search and so before any query to the
  document store: the entry is the same for every search function, and it is not an
  error.
\<close>

theorem unsupported_width_skipped:
  assumes "\<forall>d\<in>{768, 1536, 3072}. getEmbeddingDimension m \<noteq> Some d"
  shows "runBenchmark_model search m = Skipping m"
proof (cases "getEmbeddingDimension m")
  case None
  then show ?thesis by (simp add: runBenchmark_model_def)
next
  case (Some d)
  with getEmbeddingDimension_range [OF Some] assms show ?thesis by auto
qed

theorem unsupported_width_skipped_witness:
  "list_all (\<lambda>d. getEmbeddingDimension ''embedding-001'' \<noteq> Some d) [768, 1536, 3072] \<and>
   runBenchmark_model
     (VectorSearchStrategy_search example_db [4 / 5, 3 / 5] ''embedding-001'' ''xeto'' 1)
     ''embedding-001'' = Skipping ''embedding-001''"
proof -
  have "\<forall>d\<in>{768, 1536, 3072}. getEmbeddingDimension ''embedding-001'' \<noteq> Some d"
    by (simp add: no_width_for_embedding_001)
  from unsupported_width_skipped [OF this] show ?thesis
    by (simp add: no_width_for_embedding_001)
qed

section \<open>Properties of the Hybrid strategy\<close>

text \<open>
  Without a row in the lexical branch, the outer join keeps the rows of the vector branch,
  and the final \<open>ORDER BY\<close> reorders them by their vector score times the vector weight.
\<close>

lemma full_outer_join_no_right: "full_outer_join ka kb xs [] = map LeftOnly xs"
  by (induction xs) (simp_all add: full_outer_join_def)

lemma coalesce_columns_LeftOnly: "coalesce_columns f g (LeftOnly a) = f a"
  by (simp add: coalesce_columns_def coalesce_col_def coalesce_null_def)

lemma hybrid_combined_results_no_keywords:
  "hybrid_combined_results v [] w5 w6 = map (\<lambda>(c, s). (c, s * w5, 0, s * w5)) v"
  by (simp add: hybrid_combined_results_def full_outer_join_no_right coalesce_columns_LeftOnly
      left_col_def right_col_def coalesce_def comp_def case_prod_unfold)

lemma tsquery_terms_empty: "tsquery_terms [] = []"
  by (simp add: tsquery_terms_def js_split_runs_last)

lemma ts_match_empty_pattern: "\<not> ts_match ts txt []"
  by (simp add: ts_match_def tsquery_terms_empty)

lemma keyword_results_by_no_match:
  assumes "is_order_by ob"
    and "\<forall>d\<in>set docs. content_type d = contentType \<longrightarrow> \<not> ts_match ts (content d) pat"
  shows "keyword_results_by ob ts docs pat contentType limit = []"
proof -
  have "filter (\<lambda>d. content_type d = contentType \<and> ts_match ts (content d) pat) docs = []"
    using assms(2) by (simp add: filter_empty_conv)
  then show ?thesis
    by (simp add: keyword_results_by_def descending_def is_order_by_Nil [OF assms(1)])
qed

lemma hybrid_vector_only_by:
  assumes shard: "db (tableName dimension) = Some docs"
    and obk: "is_order_by obk" and obc: "is_order_by obc"
    and nomatch: "\<forall>d\<in>set docs. content_type d = contentType \<longrightarrow>
           \<not> ts_match ts (content d) (js_join '' | '' (extractKeywords queryText))"
  shows "\<exists>ds. mset ds = mset (take (topK * 2) (obv (\<lambda>d. cosine_distance (embedding d) q)
                    (filter (\<lambda>d. content_type d = contentType) docs))) \<and>
              sorted (map (\<lambda>d. - ((1 - cosine_distance (embedding d) q) * js_or (vectorWeight options) 0.7)) ds) \<and>
              HybridSearchStrategy_search_by obv obk obc ts db q queryText embeddingModel contentType
                  topK dimension options =
                Inr (map (\<lambda>d. \<lparr>res_id = id_col d, res_content = content d,
                               res_contentType = content_type d, res_metadata = metadata d,
                               res_xetoSpecName = xeto_spec_name d, res_xetoLibrary = xeto_library d,
                               similarity = (1 - cosine_distance (embedding d) q) * js_or (vectorWeight options) 0.7,
                               vectorSimilarity = 1 - cosine_distance (embedding d) q,
                               keywordSimilarity = 0\<rparr>) (take topK ds))"
proof -
  define w5 where "w5 = js_or (vectorWeight options) 0.7"
  define w6 where "w6 = js_or (keywordWeight options) 0.3"
  have nz: "w5 \<noteq> 0" "w6 \<noteq> 0" by (simp_all add: w5_def w6_def js_or_nonzero)
  define P where "P = take (topK * 2) (obv (\<lambda>d. cosine_distance (embedding d) q)
                    (filter (\<lambda>d. content_type d = contentType) docs))"
  define h where "h = (\<lambda>d::document. (select_columns d, (1 - cosine_distance (embedding d) q) * w5,
                        0::real, (1 - cosine_distance (embedding d) q) * w5))"
  define T where "T = descending obc (\<lambda>(c, wv, wk, score). score) (map h P)"
  have none: "keyword_results_by obk ts docs (js_join '' | '' (extractKeywords queryText)) contentType (topK * 2) = []"
    using obk nomatch by (rule keyword_results_by_no_match)
  have H: "hybrid_combined_results (vector_results_by obv docs q contentType (topK * 2)) [] w5 w6 = map h P"
    by (simp add: hybrid_combined_results_no_keywords vector_results_by_def P_def h_def comp_def)
  have "mset T = mset (map h P)"
    unfolding T_def descending_def using obc by (rule is_order_by_mset)
  from permuted_map [OF this] obtain ds where ds: "mset ds = mset P" and T: "T = map h ds" by blast
  have "sorted (map (\<lambda>r. - (case r of (c, wv, wk, score) \<Rightarrow> score)) T)"
    unfolding T_def descending_def using obc by (rule is_order_by_sorted)
  then have srt: "sorted (map (\<lambda>d. - ((1 - cosine_distance (embedding d) q) * w5)) ds)"
    by (simp add: T h_def comp_def)
  have run: "HybridSearchStrategy_search_by obv obk obc ts db q queryText embeddingModel contentType
                  topK dimension options =
                Inr (map (\<lambda>d. \<lparr>res_id = id_col d, res_content = content d,
                               res_contentType = content_type d, res_metadata = metadata d,
                               res_xetoSpecName = xeto_spec_name d, res_xetoLibrary = xeto_library d,
                               similarity = (1 - cosine_distance (embedding d) q) * w5,
                               vectorSimilarity = 1 - cosine_distance (embedding d) q,
                               keywordSimilarity = 0\<rparr>) (take topK ds))"
    using shard nz
    apply (simp add: HybridSearchStrategy_search_by_def hybrid_query_by_def from_table_def Let_def
        none w5_def [symmetric] w6_def [symmetric] H T_def [symmetric])
    apply (simp add: T take_map h_def comp_def select_columns_def)
    done
  from ds srt run show ?thesis unfolding P_def w5_def by blast
qed

text \<open>
  For a positive vector weight that order is an ascending order of the distances, so
  there is an ordering of the store with which the Vector strategy returns the same rows.
\<close>

lemma vector_ordering_exists:
  fixes D :: "'a \<Rightarrow> real"
  assumes obv: "is_order_by obv" and w: "0 < w" and n: "topK \<le> n"
    and ds: "mset ds = mset (take n (obv D F))"
    and srt: "sorted (map (\<lambda>d. - ((1 - D d) * w)) ds)"
  shows "\<exists>ob. is_order_by ob \<and> take topK (ob D F) = take topK ds"
proof -
  define S where "S = obv D F"
  define ob :: "'a ordering" where
    "ob = (\<lambda>key rows. if key = D \<and> rows = F then ds @ drop n S else sort_key key rows)"
  have S: "mset S = mset F" "sorted (map D S)"
    using obv by (simp_all add: S_def is_order_by_mset is_order_by_sorted)
  have "mset (ds @ drop n S) = mset (take n S @ drop n S)"
    using ds unfolding S_def mset_append by simp
  then have m: "mset (ds @ drop n S) = mset F" using S(1) by (simp only: append_take_drop_id)
  have "sorted (map D (take n S @ drop n S))" using S(2) by simp
  then have parts: "sorted (map D (drop n S))" "\<forall>x\<in>set (take n S). \<forall>y\<in>set (drop n S). D x \<le> D y"
    unfolding map_append sorted_append by auto
  have sd: "sorted (map D ds)"
    using srt w by (simp add: sorted_map sorted_wrt_iff_nth_less)
  have "set ds = set (take n S)" using ds by (metis S_def set_mset_mset)
  with parts sd have "sorted (map D (ds @ drop n S))"
    unfolding map_append sorted_append by auto
  with m have "is_order_by ob"
    by (simp add: is_order_by_def ob_def)
  moreover have "take topK (ob D F) = take topK ds"
  proof (cases "length S \<le> n")
    case True
    then show ?thesis by (simp add: ob_def)
  next
    case False
    have "length ds = length (take n S)" using ds by (metis S_def size_mset)
    with False n have "topK \<le> length ds" by simp
    then show ?thesis by (simp add: ob_def)
  qed
  ultimately show ?thesis by blast
qed

lemma hybrid_rows_match_vector:
  assumes "db (tableName dimension) = Some docs"
    and "take topK (ob (\<lambda>d. cosine_distance (embedding d) q)
            (filter (\<lambda>d. content_type d = contentType) docs)) = take topK ds"
  shows "\<exists>vs. VectorSearchStrategy_search_by ob db q embeddingModel contentType topK dimension = Inr vs \<and>
           list_all2 (\<lambda>r v. res_id r = res_id v \<and> res_content r = res_content v \<and>
                  res_contentType r = res_contentType v \<and> res_metadata r = res_metadata v \<and>
                  res_xetoSpecName r = res_xetoSpecName v \<and> res_xetoLibrary r = res_xetoLibrary v \<and>
                  similarity r = similarity v * w \<and>
                  vectorSimilarity r = similarity v \<and> keywordSimilarity r = 0)
             (map (\<lambda>d. \<lparr>res_id = id_col d, res_content = content d,
                               res_contentType = content_type d, res_metadata = metadata d,
                               res_xetoSpecName = xeto_spec_name d, res_xetoLibrary = xeto_library d,
                               similarity = (1 - cosine_distance (embedding d) q) * w,
                               vectorSimilarity = 1 - cosine_distance (embedding d) q,
                               keywordSimilarity = 0\<rparr>) (take topK ds)) vs"
  unfolding VectorSearchStrategy_search_by_rows [where db = db and dimension = dimension, OF assms(1)] assms(2)
  by (simp add: list_all2_map1 list_all2_map2 list_all2_same)

lemma hybrid_vector_only_ranking:
  assumes shard: "db (tableName dimension) = Some docs"
    and obv: "is_order_by obv" and obk: "is_order_by obk" and obc: "is_order_by obc"
    and nomatch: "\<forall>d\<in>set docs. content_type d = contentType \<longrightarrow>
           \<not> ts_match ts (content d) (js_join '' | '' (extractKeywords queryText))"
  shows "\<exists>rs cands.
     HybridSearchStrategy_search_by obv obk obc ts db q queryText embeddingModel contentType
         topK dimension options = Inr rs \<and>
     mset cands = mset (vector_results_by obv docs q contentType (topK * 2)) \<and>
     sorted_wrt (\<lambda>a b. snd a * js_or (vectorWeight options) 0.7 \<ge> snd b * js_or (vectorWeight options) 0.7) cands \<and>
     rs = map (\<lambda>(c, s).
                \<lparr>res_id = id_col c, res_content = content c, res_contentType = content_type c,
                 res_metadata = metadata c, res_xetoSpecName = xeto_spec_name c,
                 res_xetoLibrary = xeto_library c,
                 similarity = s * js_or (vectorWeight options) 0.7,
                 vectorSimilarity = s, keywordSimilarity = 0\<rparr>) (take topK cands) \<and>
     (0 < js_or (vectorWeight options) 0.7 \<longrightarrow>
        (\<exists>ob vs. is_order_by ob \<and>
           VectorSearchStrategy_search_by ob db q embeddingModel contentType topK dimension = Inr vs \<and>
           list_all2 (\<lambda>r v. res_id r = res_id v \<and> res_content r = res_content v \<and>
                  res_contentType r = res_contentType v \<and> res_metadata r = res_metadata v \<and>
                  res_xetoSpecName r = res_xetoSpecName v \<and> res_xetoLibrary r = res_xetoLibrary v \<and>
                  similarity r = similarity v * js_or (vectorWeight options) 0.7 \<and>
                  vectorSimilarity r = similarity v \<and> keywordSimilarity r = 0) rs vs)) \<and>
     (0 < js_or (vectorWeight options) 0.7 \<and>
      distinct (map (\<lambda>d. cosine_distance (embedding d) q)
                  (filter (\<lambda>d. content_type d = contentType) docs)) \<longrightarrow>
        (\<forall>ob. is_order_by ob \<longrightarrow>
           (\<exists>vs. VectorSearchStrategy_search_by ob db q embeddingModel contentType topK dimension = Inr vs \<and>
              list_all2 (\<lambda>r v. res_id r = res_id v \<and> res_content r = res_content v \<and>
                  res_contentType r = res_contentType v \<and> res_metadata r = res_metadata v \<and>
                  res_xetoSpecName r = res_xetoSpecName v \<and> res_xetoLibrary r = res_xetoLibrary v \<and>
                  similarity r = similarity v * js_or (vectorWeight options) 0.7 \<and>
                  vectorSimilarity r = similarity v \<and> keywordSimilarity r = 0) rs vs)))"
proof -
  define w where "w = js_or (vectorWeight options) 0.7"
  define D where "D = (\<lambda>d::document. cosine_distance (embedding d) q)"
  define F where "F = filter (\<lambda>d. content_type d = contentType) docs"
  define hconv where "hconv = (\<lambda>d::document. \<lparr>res_id = id_col d, res_content = content d,
                               res_contentType = content_type d, res_metadata = metadata d,
                               res_xetoSpecName = xeto_spec_name d, res_xetoLibrary = xeto_library d,
                               similarity = (1 - D d) * w,
                               vectorSimilarity = 1 - D d,
                               keywordSimilarity = 0\<rparr>)"
  from hybrid_vector_only_by [where db = db and dimension = dimension, OF shard obk obc nomatch,
      of topK obv q options embeddingModel]
  obtain ds where ds: "mset ds = mset (take (topK * 2) (obv D F))"
    and srt: "sorted (map (\<lambda>d. - ((1 - D d) * w)) ds)"
    and run: "HybridSearchStrategy_search_by obv obk obc ts db q queryText embeddingModel contentType
                  topK dimension options = Inr (map hconv (take topK ds))"
    unfolding w_def D_def F_def hconv_def by blast
  define cands where "cands = map (\<lambda>d. (select_columns d, 1 - D d)) ds"
  have c1: "mset cands = mset (vector_results_by obv docs q contentType (topK * 2))"
    unfolding cands_def vector_results_by_def mset_map ds D_def F_def ..
  have c2: "sorted_wrt (\<lambda>a b. snd a * w \<ge> snd b * w) cands"
    using srt by (simp add: cands_def sorted_map sorted_wrt_map)
  have c3: "map hconv (take topK ds) = map (\<lambda>(c, s).
                \<lparr>res_id = id_col c, res_content = content c, res_contentType = content_type c,
                 res_metadata = metadata c, res_xetoSpecName = xeto_spec_name c,
                 res_xetoLibrary = xeto_library c,
                 similarity = s * w,
                 vectorSimilarity = s, keywordSimilarity = 0\<rparr>) (take topK cands)"
    by (simp add: cands_def take_map hconv_def select_columns_def comp_def)
  have some: "\<exists>ob. is_order_by ob \<and> take topK (ob D F) = take topK ds" if "0 < w"
    using obv that _ ds srt by (rule vector_ordering_exists) simp
  have c4: "\<exists>ob vs. is_order_by ob \<and>
           VectorSearchStrategy_search_by ob db q embeddingModel contentType topK dimension = Inr vs \<and>
           list_all2 (\<lambda>r v. res_id r = res_id v \<and> res_content r = res_content v \<and>
                  res_contentType r = res_contentType v \<and> res_metadata r = res_metadata v \<and>
                  res_xetoSpecName r = res_xetoSpecName v \<and> res_xetoLibrary r = res_xetoLibrary v \<and>
                  similarity r = similarity v * w \<and>
                  vectorSimilarity r = similarity v \<and> keywordSimilarity r = 0)
             (map hconv (take topK ds)) vs" if "0 < w"
  proof -
    from some [OF that] obtain ob where ob: "is_order_by ob" "take topK (ob D F) = take topK ds"
      by blast
    from hybrid_rows_match_vector [where db = db and dimension = dimension, OF shard,
        of topK ob q contentType ds embeddingModel w] ob
    show ?thesis unfolding D_def F_def hconv_def by blast
  qed
  have c5: "\<exists>vs. VectorSearchStrategy_search_by ob db q embeddingModel contentType topK dimension = Inr vs \<and>
           list_all2 (\<lambda>r v. res_id r = res_id v \<and> res_content r = res_content v \<and>
                  res_contentType r = res_contentType v \<and> res_metadata r = res_metadata v \<and>
                  res_xetoSpecName r = res_xetoSpecName v \<and> res_xetoLibrary r = res_xetoLibrary v \<and>
                  similarity r = similarity v * w \<and>
                  vectorSimilarity r = similarity v \<and> keywordSimilarity r = 0)
             (map hconv (take topK ds)) vs"
    if "0 < w" and "distinct (map D F)" and "is_order_by ob" for ob
  proof -
    from some [OF that(1)] obtain ob' where ob': "is_order_by ob'" "take topK (ob' D F) = take topK ds"
      by blast
    have "ob D F = ob' D F" using that(3) ob'(1) that(2) by (rule is_order_by_unique)
    with ob'(2) have "take topK (ob D F) = take topK ds" by simp
    from hybrid_rows_match_vector [where db = db and dimension = dimension, OF shard,
        of topK ob q contentType ds embeddingModel w] this
    show ?thesis unfolding D_def F_def hconv_def by blast
  qed
  show ?thesis
    unfolding w_def [symmetric] D_def [symmetric] F_def [symmetric]
    apply (rule exI [of _ "map hconv (take topK ds)"])
    apply (rule exI [of _ cands])
    apply (intro conjI impI allI)
    subgoal by (rule run)
    subgoal by (rule c1)
    subgoal by (rule c2)
    subgoal by (rule c3)
    subgoal by (rule c4)
    subgoal for ob by (rule c5) simp_all
    done
qed

lemma vector_search_eq:
  "db (tableName dimension) = Some docs \<Longrightarrow>
   VectorSearchStrategy_search db q embeddingModel contentType topK dimension =
     Inr (map (\<lambda>(c, sim).
                 \<lparr>res_id = id_col c, res_content = content c, res_contentType = content_type c,
                  res_metadata = metadata c, res_xetoSpecName = xeto_spec_name c,
                  res_xetoLibrary = xeto_library c, similarity = sim\<rparr>)
               (vector_results docs q contentType topK))"
  by (simp add: VectorSearchStrategy_search_stable from_table_def)

lemma example_keywords:
  "extractKeywords ''Is it on?'' = []"
  "js_join '' | '' (extractKeywords ''pressure'') = ''pressure''"
  "js_join '' | '' (extractKeywords ''humidity'') = ''humidity''"
  by code_simp+

lemma example_matches:
  "ts_match plain_search ''CO2-Sensor: measures carbon dioxide'' ''pressure'' = False"
  "ts_match plain_search ''Pressure sensor point'' ''pressure'' = True"
  "ts_match plain_search ''CO2-Sensor: measures carbon dioxide'' ''humidity'' = False"
  "ts_match plain_search ''Pressure sensor point'' ''humidity'' = False"
  by code_simp+

lemma example_vector_results:
  "vector_results [doc_co2, doc_pressure] [4 / 5, 3 / 5] ''xeto'' (Suc (Suc n)) =
     [(select_columns doc_co2, 1), (select_columns doc_pressure, 24 / 25)]"
  by (simp add: vector_results_stable order_by_def doc_co2_def doc_pressure_def example_distances)

text \<open>
  Claim C6. For every Hybrid search whose query text yields no keyword, on an existing
  shard, for vectors for which the cosine distance is defined and whatever orderings the
  store uses for the three \<open>ORDER BY\<close> of the query: the lexical branch has no row, the
  call returns a result and no error, and the result is the vector-only ranking with each
  score scaled by the vector weight. It is made of the \<open>2 * topK\<close> candidates of the
  vector branch, put in descending order of \<open>vectorSimilarity * vectorWeight\<close>, which
  is their \<open>similarity\<close>, and cut to the first \<open>topK\<close>, with \<open>keywordSimilarity\<close> 0.
  For a positive vector weight (the default is 0.7) these are, in the same order, the
  candidates that the Vector strategy returns for the same \<open>topK\<close> with one of the
  orderings the store may use; when no two rows of the requested content type are at the
  same distance from the query vector, they are the candidates that the Vector strategy
  returns with every such ordering.
\<close>

theorem hybrid_without_keywords:
  assumes "extractKeywords queryText = []"
    and "db (tableName dimension) = Some docs"
    and "vectors_ok q docs"
    and "is_order_by obv" and "is_order_by obk" and "is_order_by obc"
  shows "keyword_results_by obk ts docs (js_join '' | '' (extractKeywords queryText)) contentType (topK * 2) = [] \<and>
   (\<exists>rs cands.
     HybridSearchStrategy_search_by obv obk obc ts db q queryText embeddingModel contentType
         topK dimension options = Inr rs \<and>
     mset cands = mset (vector_results_by obv docs q contentType (topK * 2)) \<and>
     sorted_wrt (\<lambda>a b. snd a * js_or (vectorWeight options) 0.7 \<ge> snd b * js_or (vectorWeight options) 0.7) cands \<and>
     rs = map (\<lambda>(c, s).
                \<lparr>res_id = id_col c, res_content = content c, res_contentType = content_type c,
                 res_metadata = metadata c, res_xetoSpecName = xeto_spec_name c,
                 res_xetoLibrary = xeto_library c,
                 similarity = s * js_or (vectorWeight options) 0.7,
                 vectorSimilarity = s, keywordSimilarity = 0\<rparr>) (take topK cands) \<and>
     (0 < js_or (vectorWeight options) 0.7 \<longrightarrow>
        (\<exists>ob vs. is_order_by ob \<and>
           VectorSearchStrategy_search_by ob db q embeddingModel contentType topK dimension = Inr vs \<and>
           list_all2 (\<lambda>r v. res_id r = res_id v \<and> res_content r = res_content v \<and>
                  res_contentType r = res_contentType v \<and> res_metadata r = res_metadata v \<and>
                  res_xetoSpecName r = res_xetoSpecName v \<and> res_xetoLibrary r = res_xetoLibrary v \<and>
                  similarity r = similarity v * js_or (vectorWeight options) 0.7 \<and>
                  vectorSimilarity r = similarity v \<and> keywordSimilarity r = 0) rs vs)) \<and>
     (0 < js_or (vectorWeight options) 0.7 \<and>
      distinct (map (\<lambda>d. cosine_distance (embedding d) q)
                  (filter (\<lambda>d. content_type d = contentType) docs)) \<longrightarrow>
        (\<forall>ob. is_order_by ob \<longrightarrow>
           (\<exists>vs. VectorSearchStrategy_search_by ob db q embeddingModel contentType topK dimension = Inr vs \<and>
              list_all2 (\<lambda>r v. res_id r = res_id v \<and> res_content r = res_content v \<and>
                  res_contentType r = res_contentType v \<and> res_metadata r = res_metadata v \<and>
                  res_xetoSpecName r = res_xetoSpecName v \<and> res_xetoLibrary r = res_xetoLibrary v \<and>
                  similarity r = similarity v * js_or (vectorWeight options) 0.7 \<and>
                  vectorSimilarity r = similarity v \<and> keywordSimilarity r = 0) rs vs))))"
proof (rule conjI)
  have nomatch: "\<forall>d\<in>set docs. content_type d = contentType \<longrightarrow>
           \<not> ts_match ts (content d) (js_join '' | '' (extractKeywords queryText))"
    by (simp add: assms(1) ts_match_empty_pattern)
  show "keyword_results_by obk ts docs (js_join '' | '' (extractKeywords queryText)) contentType (topK * 2) = []"
    using assms(5) nomatch by (rule keyword_results_by_no_match)
  show "\<exists>rs cands.
     HybridSearchStrategy_search_by obv obk obc ts db q queryText embeddingModel contentType
         topK dimension options = Inr rs \<and>
     mset cands = mset (vector_results_by obv docs q contentType (topK * 2)) \<and>
     sorted_wrt (\<lambda>a b. snd a * js_or (vectorWeight options) 0.7 \<ge> snd b * js_or (vectorWeight options) 0.7) cands \<and>
     rs = map (\<lambda>(c, s).
                \<lparr>res_id = id_col c, res_content = content c, res_contentType = content_type c,
                 res_metadata = metadata c, res_xetoSpecName = xeto_spec_name c,
                 res_xetoLibrary = xeto_library c,
                 similarity = s * js_or (vectorWeight options) 0.7,
                 vectorSimilarity = s, keywordSimilarity = 0\<rparr>) (take topK cands) \<and>
     (0 < js_or (vectorWeight options) 0.7 \<longrightarrow>
        (\<exists>ob vs. is_order_by ob \<and>
           VectorSearchStrategy_search_by ob db q embeddingModel contentType topK dimension = Inr vs \<and>
           list_all2 (\<lambda>r v. res_id r = res_id v \<and> res_content r = res_content v \<and>
                  res_contentType r = res_contentType v \<and> res_metadata r = res_metadata v \<and>
                  res_xetoSpecName r = res_xetoSpecName v \<and> res_xetoLibrary r = res_xetoLibrary v \<and>
                  similarity r = similarity v * js_or (vectorWeight options) 0.7 \<and>
                  vectorSimilarity r = similarity v \<and> keywordSimilarity r = 0) rs vs)) \<and>
     (0 < js_or (vectorWeight options) 0.7 \<and>
      distinct (map (\<lambda>d. cosine_distance (embedding d) q)
                  (filter (\<lambda>d. content_type d = contentType) docs)) \<longrightarrow>
        (\<forall>ob. is_order_by ob \<longrightarrow>
           (\<exists>vs. VectorSearchStrategy_search_by ob db q embeddingModel contentType topK dimension = Inr vs \<and>
              list_all2 (\<lambda>r v. res_id r = res_id v \<and> res_content r = res_content v \<and>
                  res_contentType r = res_contentType v \<and> res_metadata r = res_metadata v \<and>
                  res_xetoSpecName r = res_xetoSpecName v \<and> res_xetoLibrary r = res_xetoLibrary v \<and>
                  similarity r = similarity v * js_or (vectorWeight options) 0.7 \<and>
                  vectorSimilarity r = similarity v \<and> keywordSimilarity r = 0) rs vs)))"
    using assms(2,4,5,6) nomatch by (rule hybrid_vector_only_ranking)
qed

theorem hybrid_without_keywords_witness:
  "extractKeywords ''Is it on?'' = [] \<and>
   example_db (tableName (Some 768)) = Some [doc_co2, doc_pressure] \<and>
   vectors_ok [4 / 5, 3 / 5] [doc_co2, doc_pressure] \<and>
   is_order_by (order_by :: document ordering) \<and>
   is_order_by (order_by :: (columns \<times> real) ordering) \<and>
   is_order_by (order_by :: (columns \<times> real \<times> real \<times> real) ordering) \<and>
   HybridSearchStrategy_search plain_search example_db [4 / 5, 3 / 5] ''Is it on?''
       ''gemini-embedding-exp'' ''xeto'' 2 (Some 768) no_options =
     Inr [\<lparr>res_id = 1, res_content = ''CO2-Sensor: measures carbon dioxide'', res_contentType = ''xeto'',
           res_metadata = None, res_xetoSpecName = Some ''Co2Sensor'', res_xetoLibrary = Some ''ph.points'',
           similarity = 7 / 10, vectorSimilarity = 1, keywordSimilarity = 0\<rparr>,
          \<lparr>res_id = 2, res_content = ''Pressure sensor point'', res_contentType = ''xeto'',
           res_metadata = None, res_xetoSpecName = Some ''PressureSensor'', res_xetoLibrary = Some ''ph.points'',
           similarity = 84 / 125, vectorSimilarity = 24 / 25, keywordSimilarity = 0\<rparr>] \<and>
   VectorSearchStrategy_search example_db [4 / 5, 3 / 5] ''gemini-embedding-exp'' ''xeto'' 2 (Some 768) =
     Inr [\<lparr>res_id = 1, res_content = ''CO2-Sensor: measures carbon dioxide'', res_contentType = ''xeto'',
           res_metadata = None, res_xetoSpecName = Some ''Co2Sensor'', res_xetoLibrary = Some ''ph.points'',
           similarity = 1\<rparr>,
          \<lparr>res_id = 2, res_content = ''Pressure sensor point'', res_contentType = ''xeto'',
           res_metadata = None, res_xetoSpecName = Some ''PressureSensor'', res_xetoLibrary = Some ''ph.points'',
           similarity = 24 / 25\<rparr>]"
proof -
  have w: "js_or (vectorWeight no_options) (7 / 10) = 7 / 10"
    by (simp add: js_or_def no_options_def)
  have v: "VectorSearchStrategy_search_by order_by example_db [4 / 5, 3 / 5] ''gemini-embedding-exp'' ''xeto'' 2 (Some 768) =
     Inr [\<lparr>res_id = 1, res_content = ''CO2-Sensor: measures carbon dioxide'', res_contentType = ''xeto'',
           res_metadata = None, res_xetoSpecName = Some ''Co2Sensor'', res_xetoLibrary = Some ''ph.points'',
           similarity = 1\<rparr>,
          \<lparr>res_id = 2, res_content = ''Pressure sensor point'', res_contentType = ''xeto'',
           res_metadata = None, res_xetoSpecName = Some ''PressureSensor'', res_xetoLibrary = Some ''ph.points'',
           similarity = 24 / 25\<rparr>]"
    by (simp add: VectorSearchStrategy_search_by_def from_table_def example_db_768 vector_results_by_def
        order_by_def doc_co2_def doc_pressure_def select_columns_def example_distances)
  have d: "distinct (map (\<lambda>d. cosine_distance (embedding d) [4 / 5, 3 / 5])
                  (filter (\<lambda>d. content_type d = ''xeto'') [doc_co2, doc_pressure]))"
    by (simp add: doc_co2_def doc_pressure_def example_distances)
  from hybrid_without_keywords [where db = example_db and dimension = "Some 768"
      and queryText = "''Is it on?''" and ts = plain_search and options = no_options
      and q = "[4 / 5, 3 / 5]" and embeddingModel = "''gemini-embedding-exp''"
      and contentType = "''xeto''" and topK = 2
      and obv = order_by and obk = order_by and obc = order_by,
      OF example_keywords(1) example_db_768 vectors_ok_example
         is_order_by_stable is_order_by_stable is_order_by_stable]
  obtain rs where run: "HybridSearchStrategy_search_by order_by order_by order_by plain_search
        example_db [4 / 5, 3 / 5] ''Is it on?'' ''gemini-embedding-exp'' ''xeto'' 2 (Some 768) no_options = Inr rs"
    and same: "0 < js_or (vectorWeight no_options) 0.7 \<and>
      distinct (map (\<lambda>d. cosine_distance (embedding d) [4 / 5, 3 / 5])
                  (filter (\<lambda>d. content_type d = ''xeto'') [doc_co2, doc_pressure])) \<longrightarrow>
        (\<forall>ob. is_order_by ob \<longrightarrow>
           (\<exists>vs. VectorSearchStrategy_search_by ob example_db [4 / 5, 3 / 5] ''gemini-embedding-exp'' ''xeto'' 2 (Some 768) = Inr vs \<and>
              list_all2 (\<lambda>r v. res_id r = res_id v \<and> res_content r = res_content v \<and>
                  res_contentType r = res_contentType v \<and> res_metadata r = res_metadata v \<and>
                  res_xetoSpecName r = res_xetoSpecName v \<and> res_xetoLibrary r = res_xetoLibrary v \<and>
                  similarity r = similarity v * js_or (vectorWeight no_options) 0.7 \<and>
                  vectorSimilarity r = similarity v \<and> keywordSimilarity r = 0) rs vs))"
    by blast
  from same d have "\<exists>vs. VectorSearchStrategy_search_by order_by example_db [4 / 5, 3 / 5] ''gemini-embedding-exp'' ''xeto'' 2 (Some 768) = Inr vs \<and>
              list_all2 (\<lambda>r v. res_id r = res_id v \<and> res_content r = res_content v \<and>
                  res_contentType r = res_contentType v \<and> res_metadata r = res_metadata v \<and>
                  res_xetoSpecName r = res_xetoSpecName v \<and> res_xetoLibrary r = res_xetoLibrary v \<and>
                  similarity r = similarity v * (7 / 10) \<and>
                  vectorSimilarity r = similarity v \<and> keywordSimilarity r = 0) rs vs"
    using is_order_by_stable [where 'a = document] by (simp add: w)
  then have "rs = [\<lparr>res_id = 1, res_content = ''CO2-Sensor: measures carbon dioxide'', res_contentType = ''xeto'',
           res_metadata = None, res_xetoSpecName = Some ''Co2Sensor'', res_xetoLibrary = Some ''ph.points'',
           similarity = 7 / 10, vectorSimilarity = 1, keywordSimilarity = 0\<rparr>,
          \<lparr>res_id = 2, res_content = ''Pressure sensor point'', res_contentType = ''xeto'',
           res_metadata = None, res_xetoSpecName = Some ''PressureSensor'', res_xetoLibrary = Some ''ph.points'',
           similarity = 84 / 125, vectorSimilarity = 24 / 25, keywordSimilarity = 0\<rparr>]"
    unfolding v by (auto simp: list_all2_Cons2)
  with run v example_keywords(1) example_db_768 vectors_ok_example
  show ?thesis
    by (simp add: HybridSearchStrategy_search_def VectorSearchStrategy_search_def is_order_by_stable)
qed

text \<open>
  Claim C3, as the specification states it, does not hold. With the keyword weight set
  to 0 the Hybrid strategy works with the default weight 0.3 (see C9), and the lexical
  score changes the ranking: for the query text \<open>pressure\<close> and the query vector of the
  first example row, Hybrid ranks row 2 before row 1, and the Vector strategy ranks row 1
  before row 2. Both rows lie inside the over-fetch window.
\<close>

theorem hybrid_zero_keyword_weight_counterexample:
  "\<exists>rs vs.
     HybridSearchStrategy_search plain_search example_db [4 / 5, 3 / 5] ''pressure''
       ''gemini-embedding-exp'' ''xeto'' 2 (Some 768) (no_options\<lparr>keywordWeight := Some 0\<rparr>) = Inr rs \<and>
     VectorSearchStrategy_search example_db [4 / 5, 3 / 5] ''gemini-embedding-exp'' ''xeto'' 2 (Some 768) = Inr vs \<and>
     map res_id rs = [2, 1] \<and> map similarity rs = [351 / 500, 7 / 10] \<and>
     map res_id vs = [1, 2] \<and> map similarity vs = [1, 24 / 25]"
proof -
  have two: "(2::nat) = Suc (Suc 0)" "(2::nat) * 2 = Suc (Suc 2)" by simp_all
  have w: "js_or (vectorWeight no_options) (7 / 10) = 7 / 10" "js_or (Some 0) (3 / 10) = 3 / 10"
    by (simp_all add: js_or_def no_options_def)
  have v4: "vector_results [doc_co2, doc_pressure] [4 / 5, 3 / 5] ''xeto'' 4 =
     [(select_columns doc_co2, 1), (select_columns doc_pressure, 24 / 25)]"
    using example_vector_results [of 2] by simp
  have plain_rank: "rank_cd plain_search t ws = 1 / 10" for t ws
    by (simp add: plain_search_def)
  have k: "keyword_results plain_search [doc_co2, doc_pressure] ''pressure'' ''xeto'' 4 =
      [(select_columns doc_pressure, 1 / 10)]"
    by (simp add: keyword_results_stable order_by_desc_def doc_co2_def doc_pressure_def example_matches
        plain_rank)
  have h: "HybridSearchStrategy_search plain_search example_db [4 / 5, 3 / 5] ''pressure''
       ''gemini-embedding-exp'' ''xeto'' 2 (Some 768) (no_options\<lparr>keywordWeight := Some 0\<rparr>) =
     Inr [\<lparr>res_id = 2, res_content = ''Pressure sensor point'', res_contentType = ''xeto'',
           res_metadata = None, res_xetoSpecName = Some ''PressureSensor'', res_xetoLibrary = Some ''ph.points'',
           similarity = 351 / 500, vectorSimilarity = 24 / 25, keywordSimilarity = 1 / 10\<rparr>,
          \<lparr>res_id = 1, res_content = ''CO2-Sensor: measures carbon dioxide'', res_contentType = ''xeto'',
           res_metadata = None, res_xetoSpecName = Some ''Co2Sensor'', res_xetoLibrary = Some ''ph.points'',
           similarity = 7 / 10, vectorSimilarity = 1, keywordSimilarity = 0\<rparr>]"
    apply (simp add: HybridSearchStrategy_search_stable Let_def w example_keywords from_table_def example_db_768
      hybrid_query_stable v4 k)
    apply (simp add: hybrid_combined_results_def full_outer_join_def order_by_desc_def
        coalesce_columns_def coalesce_col_def coalesce_null_def left_col_def right_col_def
        coalesce_def select_columns_def doc_co2_def doc_pressure_def)
    done
  have v: "VectorSearchStrategy_search example_db [4 / 5, 3 / 5] ''gemini-embedding-exp'' ''xeto'' 2 (Some 768) =
     Inr [\<lparr>res_id = 1, res_content = ''CO2-Sensor: measures carbon dioxide'', res_contentType = ''xeto'',
           res_metadata = None, res_xetoSpecName = Some ''Co2Sensor'', res_xetoLibrary = Some ''ph.points'',
           similarity = 1\<rparr>,
          \<lparr>res_id = 2, res_content = ''Pressure sensor point'', res_contentType = ''xeto'',
           res_metadata = None, res_xetoSpecName = Some ''PressureSensor'', res_xetoLibrary = Some ''ph.points'',
           similarity = 24 / 25\<rparr>]"
    unfolding vector_search_eq [where db = example_db and dimension = "Some 768", OF example_db_768] two(1)
      example_vector_results
    by (simp add: select_columns_def doc_co2_def doc_pressure_def)
  show ?thesis unfolding h v by simp
qed

text \<open>
  The rows of the outer join, and with them the scores of every candidate the Hybrid
  strategy returns.
\<close>

lemma full_outer_join_rows:
  assumes "j \<in> set (full_outer_join ka kb xs ys)"
  shows "(\<exists>x. j = LeftOnly x \<and> x \<in> set xs \<and> (\<forall>y\<in>set ys. ka x \<noteq> kb y)) \<or>
         (\<exists>x y. j = Both x y \<and> x \<in> set xs \<and> y \<in> set ys \<and> ka x = kb y) \<or>
         (\<exists>y. j = RightOnly y \<and> y \<in> set ys \<and> (\<forall>x\<in>set xs. ka x \<noteq> kb y))"
proof -
  from assms consider
    (left) x where "x \<in> set xs"
      "j \<in> set (case filter (\<lambda>y. ka x = kb y) ys of [] \<Rightarrow> [LeftOnly x] | m # ms \<Rightarrow> map (Both x) (m # ms))"
    | (right) y where "j = RightOnly y" "y \<in> set ys" "\<not> list_ex (\<lambda>x. ka x = kb y) xs"
    by (auto simp: full_outer_join_def)
  then show ?thesis
  proof cases
    case left
    show ?thesis
    proof (cases "filter (\<lambda>y. ka x = kb y) ys")
      case Nil
      with left have "j = LeftOnly x" by simp
      moreover from Nil have "\<forall>y\<in>set ys. ka x \<noteq> kb y" by (simp add: filter_empty_conv)
      ultimately show ?thesis using left(1) by blast
    next
      case (Cons m ms)
      with left obtain y where "j = Both x y" "y \<in> set (filter (\<lambda>y. ka x = kb y) ys)"
        by (metis imageE list.set_map list.simps(5))
      then show ?thesis using left(1) by auto
    qed
  next
    case right
    then show ?thesis by (auto simp: list_ex_iff)
  qed
qed

lemma hybrid_combined_results_rows:
  assumes "t \<in> set (hybrid_combined_results V K w5 w6)"
  shows "\<exists>c vs ks. t = (c, vs * w5, ks * w6, vs * w5 + ks * w6) \<and>
     ((\<exists>v\<in>set V. id_col (fst v) = id_col c \<and> snd v = vs) \<or>
      (\<not> (\<exists>v\<in>set V. id_col (fst v) = id_col c) \<and> vs = 0)) \<and>
     ((\<exists>k\<in>set K. id_col (fst k) = id_col c \<and> snd k = ks) \<or>
      (\<not> (\<exists>k\<in>set K. id_col (fst k) = id_col c) \<and> ks = 0))"
proof -
  from assms obtain j where j: "j \<in> set (full_outer_join (id_col \<circ> fst) (id_col \<circ> fst) V K)"
    and t: "t = (coalesce_columns fst fst j,
                coalesce (left_col (Some \<circ> snd) j) 0 * w5,
                coalesce (right_col (Some \<circ> snd) j) 0 * w6,
                (coalesce (left_col (Some \<circ> snd) j) 0 * w5) +
                (coalesce (right_col (Some \<circ> snd) j) 0 * w6))"
    by (auto simp: hybrid_combined_results_def)
  from full_outer_join_rows [OF j] show ?thesis
  proof (elim disjE exE conjE)
    fix x assume "j = LeftOnly x" "x \<in> set V" "\<forall>y\<in>set K. (id_col \<circ> fst) x \<noteq> (id_col \<circ> fst) y"
    then show ?thesis
      unfolding t
      by (intro exI [of _ "coalesce_columns fst fst j"] exI [of _ "snd x"] exI [of _ 0])
        (auto simp: coalesce_columns_def coalesce_col_def left_col_def right_col_def coalesce_def)
  next
    fix x y assume "j = Both x y" "x \<in> set V" "y \<in> set K" "(id_col \<circ> fst) x = (id_col \<circ> fst) y"
    then show ?thesis
      unfolding t
      by (intro exI [of _ "coalesce_columns fst fst j"] exI [of _ "snd x"] exI [of _ "snd y"])
        (auto simp: coalesce_columns_def coalesce_col_def left_col_def right_col_def coalesce_def)
  next
    fix y assume "j = RightOnly y" "y \<in> set K" "\<forall>x\<in>set V. (id_col \<circ> fst) x \<noteq> (id_col \<circ> fst) y"
    then show ?thesis
      unfolding t
      by (intro exI [of _ "coalesce_columns fst fst j"] exI [of _ 0] exI [of _ "snd y"])
        (auto simp: coalesce_columns_def coalesce_col_def left_col_def right_col_def coalesce_def)
  qed
qed

lemma hybrid_rows_scored:
  assumes shard: "db (tableName dimension) = Some docs" and obc: "is_order_by obc"
  shows "\<exists>rs. HybridSearchStrategy_search_by obv obk obc ts db q queryText embeddingModel contentType
             topK dimension options = Inr rs \<and>
           length rs \<le> topK \<and>
           sorted_wrt (\<lambda>a b. similarity a \<ge> similarity b) rs \<and>
           (\<forall>r\<in>set rs.
              similarity r = vectorSimilarity r * js_or (vectorWeight options) 0.7 +
                             keywordSimilarity r * js_or (keywordWeight options) 0.3 \<and>
              ((\<exists>v\<in>set (vector_results_by obv docs q contentType (topK * 2)).
                   id_col (fst v) = res_id r \<and> snd v = vectorSimilarity r) \<or>
               (\<not> (\<exists>v\<in>set (vector_results_by obv docs q contentType (topK * 2)).
                   id_col (fst v) = res_id r) \<and> vectorSimilarity r = 0)) \<and>
              ((\<exists>k\<in>set (keyword_results_by obk ts docs (js_join '' | '' (extractKeywords queryText))
                            contentType (topK * 2)).
                   id_col (fst k) = res_id r \<and> snd k = keywordSimilarity r) \<or>
               (\<not> (\<exists>k\<in>set (keyword_results_by obk ts docs (js_join '' | '' (extractKeywords queryText))
                            contentType (topK * 2)).
                   id_col (fst k) = res_id r) \<and> keywordSimilarity r = 0)))"
proof -
  define w5 where "w5 = js_or (vectorWeight options) 0.7"
  define w6 where "w6 = js_or (keywordWeight options) 0.3"
  have nz: "w5 \<noteq> 0" "w6 \<noteq> 0" by (simp_all add: w5_def w6_def js_or_nonzero)
  define V where "V = vector_results_by obv docs q contentType (topK * 2)"
  define K where "K = keyword_results_by obk ts docs (js_join '' | '' (extractKeywords queryText))
                            contentType (topK * 2)"
  define T where "T = descending obc (\<lambda>(c, wv, wk, score). score) (hybrid_combined_results V K w5 w6)"
  define conv where "conv = (\<lambda>(c::columns, wv, wk, score).
                         \<lparr>res_id = id_col c, res_content = content c, res_contentType = content_type c,
                          res_metadata = metadata c, res_xetoSpecName = xeto_spec_name c,
                          res_xetoLibrary = xeto_library c, similarity = score,
                          vectorSimilarity = wv / w5, keywordSimilarity = wk / w6\<rparr>)"
  have run: "HybridSearchStrategy_search_by obv obk obc ts db q queryText embeddingModel contentType
             topK dimension options = Inr (map conv (take topK T))"
    using shard nz
    apply (simp add: HybridSearchStrategy_search_by_def hybrid_query_by_def from_table_def Let_def
        w5_def [symmetric] w6_def [symmetric] V_def [symmetric] K_def [symmetric] T_def [symmetric])
    apply (simp add: conv_def comp_def case_prod_unfold)
    done
  have len: "length (map conv (take topK T)) \<le> topK" by simp
  have "sorted (map (\<lambda>r. - (case r of (c, wv, wk, score) \<Rightarrow> score)) T)"
    unfolding T_def descending_def using obc by (rule is_order_by_sorted)
  then have "sorted_wrt (\<lambda>a b. similarity (conv a) \<ge> similarity (conv b)) T"
    by (simp add: sorted_map conv_def case_prod_unfold)
  then have "sorted_wrt (\<lambda>a b. similarity (conv a) \<ge> similarity (conv b)) (take topK T)"
    by (rule sorted_wrt_take)
  then have srt: "sorted_wrt (\<lambda>a b. similarity a \<ge> similarity b) (map conv (take topK T))"
    by (simp add: sorted_wrt_map)
  have setT: "set T = set (hybrid_combined_results V K w5 w6)"
    unfolding T_def descending_def using obc by (rule is_order_by_set)
  have rows: "similarity r = vectorSimilarity r * w5 + keywordSimilarity r * w6 \<and>
              ((\<exists>v\<in>set V. id_col (fst v) = res_id r \<and> snd v = vectorSimilarity r) \<or>
               (\<not> (\<exists>v\<in>set V. id_col (fst v) = res_id r) \<and> vectorSimilarity r = 0)) \<and>
              ((\<exists>k\<in>set K. id_col (fst k) = res_id r \<and> snd k = keywordSimilarity r) \<or>
               (\<not> (\<exists>k\<in>set K. id_col (fst k) = res_id r) \<and> keywordSimilarity r = 0))"
    if "r \<in> set (map conv (take topK T))" for r
  proof -
    from that obtain t where "t \<in> set T" and r: "r = conv t"
      by (auto dest: in_set_takeD)
    then have "t \<in> set (hybrid_combined_results V K w5 w6)" using setT by simp
    from hybrid_combined_results_rows [OF this] obtain c vs ks where
      t: "t = (c, vs * w5, ks * w6, vs * w5 + ks * w6)"
      and v: "(\<exists>v\<in>set V. id_col (fst v) = id_col c \<and> snd v = vs) \<or>
              (\<not> (\<exists>v\<in>set V. id_col (fst v) = id_col c) \<and> vs = 0)"
      and k: "(\<exists>k\<in>set K. id_col (fst k) = id_col c \<and> snd k = ks) \<or>
              (\<not> (\<exists>k\<in>set K. id_col (fst k) = id_col c) \<and> ks = 0)"
      by blast
    have f: "res_id r = id_col c" "vectorSimilarity r = vs" "keywordSimilarity r = ks"
      "similarity r = vs * w5 + ks * w6"
      using nz by (simp_all add: r t conv_def)
    show ?thesis unfolding f using v k by simp
  qed
  show ?thesis
    unfolding w5_def [symmetric] w6_def [symmetric] V_def [symmetric] K_def [symmetric]
    apply (rule exI [of _ "map conv (take topK T)"])
    apply (intro conjI ballI)
    subgoal by (rule run)
    subgoal by (rule len)
    subgoal by (rule srt)
    subgoal for r using rows [of r] by blast
    subgoal for r using rows [of r] by blast
    subgoal for r using rows [of r] by blast
    done
qed

text \<open>
  Claim C3, amended. The Hybrid strategy invoked with the keyword weight set to 0 works
  with the default keyword weight 0.3: its search is the search with the weight 0.3. On
  an existing shard, for vectors for which the cosine distance is defined and whatever
  orderings the store uses, it returns at most \<open>topK\<close> candidates in descending order of
  \<open>similarity\<close>, and the \<open>similarity\<close> of each is its vector score times the vector
  weight plus its lexical score times 0.3, where a candidate has the score of its row in
  the \<open>2 * topK\<close> rows of a branch, and 0 for a branch without a row for it. Whenever no
  row of the requested content type matches the lexical query and the vector weight in
  effect is positive, this is the ranking of the Vector strategy (the same documents in
  the same order, each score scaled by the vector weight) with one of the orderings the
  store may use, and with every such ordering when no two rows of the requested content
  type are at the same distance from the query vector.
\<close>

theorem hybrid_zero_keyword_weight:
  assumes "db (tableName dimension) = Some docs"
    and "vectors_ok q docs"
    and "is_order_by obv" and "is_order_by obk" and "is_order_by obc"
  shows "HybridSearchStrategy_search_by obv obk obc ts db q queryText embeddingModel contentType
             topK dimension (options\<lparr>keywordWeight := Some 0\<rparr>) =
         HybridSearchStrategy_search_by obv obk obc ts db q queryText embeddingModel contentType
             topK dimension (options\<lparr>keywordWeight := Some 0.3\<rparr>) \<and>
   (\<exists>rs. HybridSearchStrategy_search_by obv obk obc ts db q queryText embeddingModel contentType
             topK dimension (options\<lparr>keywordWeight := Some 0\<rparr>) = Inr rs \<and>
      length rs \<le> topK \<and>
      sorted_wrt (\<lambda>a b. similarity a \<ge> similarity b) rs \<and>
      (\<forall>r\<in>set rs.
         similarity r = vectorSimilarity r * js_or (vectorWeight options) 0.7 + keywordSimilarity r * 0.3 \<and>
         ((\<exists>v\<in>set (vector_results_by obv docs q contentType (topK * 2)). id_col (fst v) = res_id r \<and> snd v = vectorSimilarity r) \<or>
          (\<not> (\<exists>v\<in>set (vector_results_by obv docs q contentType (topK * 2)). id_col (fst v) = res_id r) \<and> vectorSimilarity r = 0)) \<and>
         ((\<exists>k\<in>set (keyword_results_by obk ts docs (js_join '' | '' (extractKeywords queryText)) contentType (topK * 2)). id_col (fst k) = res_id r \<and> snd k = keywordSimilarity r) \<or>
          (\<not> (\<exists>k\<in>set (keyword_results_by obk ts docs (js_join '' | '' (extractKeywords queryText)) contentType (topK * 2)). id_col (fst k) = res_id r) \<and> keywordSimilarity r = 0))) \<and>
      ((\<forall>d\<in>set docs. content_type d = contentType \<longrightarrow>
           \<not> ts_match ts (content d) (js_join '' | '' (extractKeywords queryText))) \<and>
       0 < js_or (vectorWeight options) 0.7 \<longrightarrow>
         (\<exists>ob vs. is_order_by ob \<and>
            VectorSearchStrategy_search_by ob db q embeddingModel contentType topK dimension = Inr vs \<and>
            list_all2 (\<lambda>r v. res_id r = res_id v \<and> res_content r = res_content v \<and>
                  res_contentType r = res_contentType v \<and> res_metadata r = res_metadata v \<and>
                  res_xetoSpecName r = res_xetoSpecName v \<and> res_xetoLibrary r = res_xetoLibrary v \<and>
                  similarity r = similarity v * js_or (vectorWeight options) 0.7 \<and>
                  vectorSimilarity r = similarity v \<and> keywordSimilarity r = 0) rs vs)) \<and>
      ((\<forall>d\<in>set docs. content_type d = contentType \<longrightarrow>
           \<not> ts_match ts (content d) (js_join '' | '' (extractKeywords queryText))) \<and>
       0 < js_or (vectorWeight options) 0.7 \<and>
       distinct (map (\<lambda>d. cosine_distance (embedding d) q)
                   (filter (\<lambda>d. content_type d = contentType) docs)) \<longrightarrow>
         (\<forall>ob. is_order_by ob \<longrightarrow>
            (\<exists>vs. VectorSearchStrategy_search_by ob db q embeddingModel contentType topK dimension = Inr vs \<and>
               list_all2 (\<lambda>r v. res_id r = res_id v \<and> res_content r = res_content v \<and>
                  res_contentType r = res_contentType v \<and> res_metadata r = res_metadata v \<and>
                  res_xetoSpecName r = res_xetoSpecName v \<and> res_xetoLibrary r = res_xetoLibrary v \<and>
                  similarity r = similarity v * js_or (vectorWeight options) 0.7 \<and>
                  vectorSimilarity r = similarity v \<and> keywordSimilarity r = 0) rs vs))))"
proof (rule conjI)
  let ?o = "options\<lparr>keywordWeight := Some 0\<rparr>"
  have w: "js_or (vectorWeight ?o) 0.7 = js_or (vectorWeight options) 0.7"
    "js_or (keywordWeight ?o) 0.3 = 0.3"
    by (simp_all add: js_or_def)
  show "HybridSearchStrategy_search_by obv obk obc ts db q queryText embeddingModel contentType
             topK dimension (options\<lparr>keywordWeight := Some 0\<rparr>) =
         HybridSearchStrategy_search_by obv obk obc ts db q queryText embeddingModel contentType
             topK dimension (options\<lparr>keywordWeight := Some 0.3\<rparr>)"
    by (simp add: HybridSearchStrategy_search_by_def js_or_def)
  from hybrid_rows_scored [where db = db and dimension = dimension, OF assms(1,5),
      of obv obk ts q queryText embeddingModel contentType topK ?o]
  obtain rs where run: "HybridSearchStrategy_search_by obv obk obc ts db q queryText embeddingModel contentType
             topK dimension (options\<lparr>keywordWeight := Some 0\<rparr>) = Inr rs"
    and len: "length rs \<le> topK"
    and srt: "sorted_wrt (\<lambda>a b. similarity a \<ge> similarity b) rs"
    and rows: "\<forall>r\<in>set rs.
         similarity r = vectorSimilarity r * js_or (vectorWeight options) 0.7 + keywordSimilarity r * 0.3 \<and>
         ((\<exists>v\<in>set (vector_results_by obv docs q contentType (topK * 2)). id_col (fst v) = res_id r \<and> snd v = vectorSimilarity r) \<or>
          (\<not> (\<exists>v\<in>set (vector_results_by obv docs q contentType (topK * 2)). id_col (fst v) = res_id r) \<and> vectorSimilarity r = 0)) \<and>
         ((\<exists>k\<in>set (keyword_results_by obk ts docs (js_join '' | '' (extractKeywords queryText)) contentType (topK * 2)). id_col (fst k) = res_id r \<and> snd k = keywordSimilarity r) \<or>
          (\<not> (\<exists>k\<in>set (keyword_results_by obk ts docs (js_join '' | '' (extractKeywords queryText)) contentType (topK * 2)). id_col (fst k) = res_id r) \<and> keywordSimilarity r = 0))"
    unfolding w by blast
  have only: "(0 < js_or (vectorWeight options) 0.7 \<longrightarrow> (\<exists>ob vs. is_order_by ob \<and>
            VectorSearchStrategy_search_by ob db q embeddingModel contentType topK dimension = Inr vs \<and>
            list_all2 (\<lambda>r v. res_id r = res_id v \<and> res_content r = res_content v \<and>
                  res_contentType r = res_contentType v \<and> res_metadata r = res_metadata v \<and>
                  res_xetoSpecName r = res_xetoSpecName v \<and> res_xetoLibrary r = res_xetoLibrary v \<and>
                  similarity r = similarity v * js_or (vectorWeight options) 0.7 \<and>
                  vectorSimilarity r = similarity v \<and> keywordSimilarity r = 0) rs vs)) \<and>
      (0 < js_or (vectorWeight options) 0.7 \<and> distinct (map (\<lambda>d. cosine_distance (embedding d) q)
                   (filter (\<lambda>d. content_type d = contentType) docs)) \<longrightarrow> (\<forall>ob. is_order_by ob \<longrightarrow>
            (\<exists>vs. VectorSearchStrategy_search_by ob db q embeddingModel contentType topK dimension = Inr vs \<and>
               list_all2 (\<lambda>r v. res_id r = res_id v \<and> res_content r = res_content v \<and>
                  res_contentType r = res_contentType v \<and> res_metadata r = res_metadata v \<and>
                  res_xetoSpecName r = res_xetoSpecName v \<and> res_xetoLibrary r = res_xetoLibrary v \<and>
                  similarity r = similarity v * js_or (vectorWeight options) 0.7 \<and>
                  vectorSimilarity r = similarity v \<and> keywordSimilarity r = 0) rs vs)))"
    if nomatch: "\<forall>d\<in>set docs. content_type d = contentType \<longrightarrow>
           \<not> ts_match ts (content d) (js_join '' | '' (extractKeywords queryText))"
  proof -
    from hybrid_vector_only_ranking [where db = db and dimension = dimension,
        OF assms(1,3,4,5) nomatch, of q embeddingModel topK ?o]
    obtain rs' where run': "HybridSearchStrategy_search_by obv obk obc ts db q queryText embeddingModel contentType
             topK dimension (options\<lparr>keywordWeight := Some 0\<rparr>) = Inr rs'"
      and v: "0 < js_or (vectorWeight options) 0.7 \<longrightarrow> (\<exists>ob vs. is_order_by ob \<and>
            VectorSearchStrategy_search_by ob db q embeddingModel contentType topK dimension = Inr vs \<and>
            list_all2 (\<lambda>r v. res_id r = res_id v \<and> res_content r = res_content v \<and>
                  res_contentType r = res_contentType v \<and> res_metadata r = res_metadata v \<and>
                  res_xetoSpecName r = res_xetoSpecName v \<and> res_xetoLibrary r = res_xetoLibrary v \<and>
                  similarity r = similarity v * js_or (vectorWeight options) 0.7 \<and>
                  vectorSimilarity r = similarity v \<and> keywordSimilarity r = 0) rs' vs)"
      and u: "0 < js_or (vectorWeight options) 0.7 \<and> distinct (map (\<lambda>d. cosine_distance (embedding d) q)
                   (filter (\<lambda>d. content_type d = contentType) docs)) \<longrightarrow> (\<forall>ob. is_order_by ob \<longrightarrow>
            (\<exists>vs. VectorSearchStrategy_search_by ob db q embeddingModel contentType topK dimension = Inr vs \<and>
               list_all2 (\<lambda>r v. res_id r = res_id v \<and> res_content r = res_content v \<and>
                  res_contentType r = res_contentType v \<and> res_metadata r = res_metadata v \<and>
                  res_xetoSpecName r = res_xetoSpecName v \<and> res_xetoLibrary r = res_xetoLibrary v \<and>
                  similarity r = similarity v * js_or (vectorWeight options) 0.7 \<and>
                  vectorSimilarity r = similarity v \<and> keywordSimilarity r = 0) rs' vs))"
      unfolding w by blast
    from run run' have "rs' = rs" by simp
    with v u show ?thesis by simp
  qed
  show "\<exists>rs. HybridSearchStrategy_search_by obv obk obc ts db q queryText embeddingModel contentType
             topK dimension (options\<lparr>keywordWeight := Some 0\<rparr>) = Inr rs \<and>
      length rs \<le> topK \<and>
      sorted_wrt (\<lambda>a b. similarity a \<ge> similarity b) rs \<and>
      (\<forall>r\<in>set rs.
         similarity r = vectorSimilarity r * js_or (vectorWeight options) 0.7 + keywordSimilarity r * 0.3 \<and>
         ((\<exists>v\<in>set (vector_results_by obv docs q contentType (topK * 2)). id_col (fst v) = res_id r \<and> snd v = vectorSimilarity r) \<or>
          (\<not> (\<exists>v\<in>set (vector_results_by obv docs q contentType (topK * 2)). id_col (fst v) = res_id r) \<and> vectorSimilarity r = 0)) \<and>
         ((\<exists>k\<in>set (keyword_results_by obk ts docs (js_join '' | '' (extractKeywords queryText)) contentType (topK * 2)). id_col (fst k) = res_id r \<and> snd k = keywordSimilarity r) \<or>
          (\<not> (\<exists>k\<in>set (keyword_results_by obk ts docs (js_join '' | '' (extractKeywords queryText)) contentType (topK * 2)). id_col (fst k) = res_id r) \<and> keywordSimilarity r = 0))) \<and>
      ((\<forall>d\<in>set docs. content_type d = contentType \<longrightarrow>
           \<not> ts_match ts (content d) (js_join '' | '' (extractKeywords queryText))) \<and>
       0 < js_or (vectorWeight options) 0.7 \<longrightarrow>
         (\<exists>ob vs. is_order_by ob \<and>
            VectorSearchStrategy_search_by ob db q embeddingModel contentType topK dimension = Inr vs \<and>
            list_all2 (\<lambda>r v. res_id r = res_id v \<and> res_content r = res_content v \<and>
                  res_contentType r = res_contentType v \<and> res_metadata r = res_metadata v \<and>
                  res_xetoSpecName r = res_xetoSpecName v \<and> res_xetoLibrary r = res_xetoLibrary v \<and>
                  similarity r = similarity v * js_or (vectorWeight options) 0.7 \<and>
                  vectorSimilarity r = similarity v \<and> keywordSimilarity r = 0) rs vs)) \<and>
      ((\<forall>d\<in>set docs. content_type d = contentType \<longrightarrow>
           \<not> ts_match ts (content d) (js_join '' | '' (extractKeywords queryText))) \<and>
       0 < js_or (vectorWeight options) 0.7 \<and>
       distinct (map (\<lambda>d. cosine_distance (embedding d) q)
                   (filter (\<lambda>d. content_type d = contentType) docs)) \<longrightarrow>
         (\<forall>ob. is_order_by ob \<longrightarrow>
            (\<exists>vs. VectorSearchStrategy_search_by ob db q embeddingModel contentType topK dimension = Inr vs \<and>
               list_all2 (\<lambda>r v. res_id r = res_id v \<and> res_content r = res_content v \<and>
                  res_contentType r = res_contentType v \<and> res_metadata r = res_metadata v \<and>
                  res_xetoSpecName r = res_xetoSpecName v \<and> res_xetoLibrary r = res_xetoLibrary v \<and>
                  similarity r = similarity v * js_or (vectorWeight options) 0.7 \<and>
                  vectorSimilarity r = similarity v \<and> keywordSimilarity r = 0) rs vs)))"
    apply (rule exI [of _ rs])
    apply (intro conjI)
    subgoal by (rule run)
    subgoal by (rule len)
    subgoal by (rule srt)
    subgoal by (rule rows)
    subgoal using only by blast
    subgoal using only by blast
    done
qed

theorem hybrid_zero_keyword_weight_witness:
  "example_db (tableName (Some 768)) = Some [doc_co2, doc_pressure] \<and>
   vectors_ok [4 / 5, 3 / 5] [doc_co2, doc_pressure] \<and>
   is_order_by (order_by :: document ordering) \<and>
   is_order_by (order_by :: (columns \<times> real) ordering) \<and>
   is_order_by (order_by :: (columns \<times> real \<times> real \<times> real) ordering) \<and>
   HybridSearchStrategy_search plain_search example_db [4 / 5, 3 / 5] ''pressure''
       ''gemini-embedding-exp'' ''xeto'' 2 (Some 768) (no_options\<lparr>keywordWeight := Some 0\<rparr>) =
   HybridSearchStrategy_search plain_search example_db [4 / 5, 3 / 5] ''pressure''
       ''gemini-embedding-exp'' ''xeto'' 2 (Some 768) (no_options\<lparr>keywordWeight := Some 0.3\<rparr>) \<and>
   (\<exists>rs. HybridSearchStrategy_search plain_search example_db [4 / 5, 3 / 5] ''pressure''
       ''gemini-embedding-exp'' ''xeto'' 2 (Some 768) (no_options\<lparr>keywordWeight := Some 0\<rparr>) = Inr rs \<and>
      length rs \<le> 2 \<and>
      sorted_wrt (\<lambda>a b. similarity a \<ge> similarity b) rs \<and>
      list_all (\<lambda>r. similarity r = vectorSimilarity r * (7 / 10) + keywordSimilarity r * (3 / 10)) rs \<and>
      map similarity rs = [351 / 500, 7 / 10] \<and>
      map vectorSimilarity rs = [24 / 25, 1] \<and>
      map keywordSimilarity rs = [1 / 10, 0]) \<and>
   list_all (\<lambda>d. \<not> ts_match plain_search (content d) (js_join '' | '' (extractKeywords ''humidity'')))
     [doc_co2, doc_pressure] \<and>
   0 < js_or (vectorWeight no_options) 0.7 \<and>
   distinct (map (\<lambda>d. cosine_distance (embedding d) [4 / 5, 3 / 5])
              (filter (\<lambda>d. content_type d = ''xeto'') [doc_co2, doc_pressure])) \<and>
   HybridSearchStrategy_search plain_search example_db [4 / 5, 3 / 5] ''humidity''
       ''gemini-embedding-exp'' ''xeto'' 2 (Some 768) (no_options\<lparr>keywordWeight := Some 0\<rparr>) =
     Inr [\<lparr>res_id = 1, res_content = ''CO2-Sensor: measures carbon dioxide'', res_contentType = ''xeto'',
           res_metadata = None, res_xetoSpecName = Some ''Co2Sensor'', res_xetoLibrary = Some ''ph.points'',
           similarity = 7 / 10, vectorSimilarity = 1, keywordSimilarity = 0\<rparr>,
          \<lparr>res_id = 2, res_content = ''Pressure sensor point'', res_contentType = ''xeto'',
           res_metadata = None, res_xetoSpecName = Some ''PressureSensor'', res_xetoLibrary = Some ''ph.points'',
           similarity = 84 / 125, vectorSimilarity = 24 / 25, keywordSimilarity = 0\<rparr>] \<and>
   VectorSearchStrategy_search example_db [4 / 5, 3 / 5] ''gemini-embedding-exp'' ''xeto'' 2 (Some 768) =
     Inr [\<lparr>res_id = 1, res_content = ''CO2-Sensor: measures carbon dioxide'', res_contentType = ''xeto'',
           res_metadata = None, res_xetoSpecName = Some ''Co2Sensor'', res_xetoLibrary = Some ''ph.points'',
           similarity = 1\<rparr>,
          \<lparr>res_id = 2, res_content = ''Pressure sensor point'', res_contentType = ''xeto'',
           res_metadata = None, res_xetoSpecName = Some ''PressureSensor'', res_xetoLibrary = Some ''ph.points'',
           similarity = 24 / 25\<rparr>]"
proof -
  have w: "js_or (vectorWeight no_options) (7 / 10) = 7 / 10"
    by (simp add: js_or_def no_options_def)
  have four: "(2::nat) * 2 = Suc (Suc 2)" by simp
  have plain_rank: "rank_cd plain_search t ws = 1 / 10" for t ws
    by (simp add: plain_search_def)
  have v4: "vector_results_by order_by [doc_co2, doc_pressure] [4 / 5, 3 / 5] ''xeto'' (2 * 2) =
     [(select_columns doc_co2, 1), (select_columns doc_pressure, 24 / 25)]"
    unfolding four using example_vector_results [of 2] by (simp add: vector_results_def)
  have k4: "keyword_results_by order_by plain_search [doc_co2, doc_pressure]
       (js_join '' | '' (extractKeywords ''pressure'')) ''xeto'' (2 * 2) =
      [(select_columns doc_pressure, 1 / 10)]"
    by (simp add: keyword_results_by_def descending_def order_by_def doc_co2_def doc_pressure_def
        example_keywords example_matches plain_rank)
  from hybrid_zero_keyword_weight [where db = example_db and dimension = "Some 768"
      and ts = plain_search and queryText = "''pressure''" and options = no_options
      and q = "[4 / 5, 3 / 5]" and embeddingModel = "''gemini-embedding-exp''"
      and contentType = "''xeto''" and topK = 2
      and obv = order_by and obk = order_by and obc = order_by,
      OF example_db_768 vectors_ok_example is_order_by_stable is_order_by_stable is_order_by_stable]
  obtain rs where same: "HybridSearchStrategy_search_by order_by order_by order_by plain_search example_db
       [4 / 5, 3 / 5] ''pressure'' ''gemini-embedding-exp'' ''xeto'' 2 (Some 768)
       (no_options\<lparr>keywordWeight := Some 0\<rparr>) =
      HybridSearchStrategy_search_by order_by order_by order_by plain_search example_db
       [4 / 5, 3 / 5] ''pressure'' ''gemini-embedding-exp'' ''xeto'' 2 (Some 768)
       (no_options\<lparr>keywordWeight := Some 0.3\<rparr>)"
    and run: "HybridSearchStrategy_search_by order_by order_by order_by plain_search example_db
       [4 / 5, 3 / 5] ''pressure'' ''gemini-embedding-exp'' ''xeto'' 2 (Some 768)
       (no_options\<lparr>keywordWeight := Some 0\<rparr>) = Inr rs"
    and len: "length rs \<le> 2"
    and srt: "sorted_wrt (\<lambda>a b. similarity a \<ge> similarity b) rs"
    and rows: "\<forall>r\<in>set rs.
         similarity r = vectorSimilarity r * js_or (vectorWeight no_options) 0.7 + keywordSimilarity r * 0.3 \<and>
         ((\<exists>v\<in>set (vector_results_by order_by [doc_co2, doc_pressure] [4 / 5, 3 / 5] ''xeto'' (2 * 2)).
              id_col (fst v) = res_id r \<and> snd v = vectorSimilarity r) \<or>
          (\<not> (\<exists>v\<in>set (vector_results_by order_by [doc_co2, doc_pressure] [4 / 5, 3 / 5] ''xeto'' (2 * 2)).
              id_col (fst v) = res_id r) \<and> vectorSimilarity r = 0)) \<and>
         ((\<exists>k\<in>set (keyword_results_by order_by plain_search [doc_co2, doc_pressure]
                       (js_join '' | '' (extractKeywords ''pressure'')) ''xeto'' (2 * 2)).
              id_col (fst k) = res_id r \<and> snd k = keywordSimilarity r) \<or>
          (\<not> (\<exists>k\<in>set (keyword_results_by order_by plain_search [doc_co2, doc_pressure]
                       (js_join '' | '' (extractKeywords ''pressure'')) ''xeto'' (2 * 2)).
              id_col (fst k) = res_id r) \<and> keywordSimilarity r = 0))"
    by blast
  have two: "(2::nat) * 2 = 4" by simp
  have w0: "js_or (Some 0) (3 / 10) = 3 / 10"
    by (simp add: js_or_def)
  have v4': "vector_results [doc_co2, doc_pressure] [4 / 5, 3 / 5] ''xeto'' 4 =
     [(select_columns doc_co2, 1), (select_columns doc_pressure, 24 / 25)]"
    using example_vector_results [of 2] by simp
  have k4': "keyword_results plain_search [doc_co2, doc_pressure] ''pressure'' ''xeto'' 4 =
      [(select_columns doc_pressure, 1 / 10)]"
    by (simp add: keyword_results_stable order_by_desc_def doc_co2_def doc_pressure_def example_matches
        plain_rank)
  have h: "HybridSearchStrategy_search plain_search example_db [4 / 5, 3 / 5] ''pressure''
       ''gemini-embedding-exp'' ''xeto'' 2 (Some 768) (no_options\<lparr>keywordWeight := Some 0\<rparr>) =
     Inr [\<lparr>res_id = 2, res_content = ''Pressure sensor point'', res_contentType = ''xeto'',
           res_metadata = None, res_xetoSpecName = Some ''PressureSensor'', res_xetoLibrary = Some ''ph.points'',
           similarity = 351 / 500, vectorSimilarity = 24 / 25, keywordSimilarity = 1 / 10\<rparr>,
          \<lparr>res_id = 1, res_content = ''CO2-Sensor: measures carbon dioxide'', res_contentType = ''xeto'',
           res_metadata = None, res_xetoSpecName = Some ''Co2Sensor'', res_xetoLibrary = Some ''ph.points'',
           similarity = 7 / 10, vectorSimilarity = 1, keywordSimilarity = 0\<rparr>]"
    apply (simp add: HybridSearchStrategy_search_stable Let_def w w0 example_keywords from_table_def example_db_768
      hybrid_query_stable v4' k4')
    apply (simp add: hybrid_combined_results_def full_outer_join_def order_by_desc_def
        coalesce_columns_def coalesce_col_def coalesce_null_def left_col_def right_col_def
        coalesce_def select_columns_def doc_co2_def doc_pressure_def)
    done
  have run': "HybridSearchStrategy_search plain_search example_db [4 / 5, 3 / 5] ''pressure''
       ''gemini-embedding-exp'' ''xeto'' 2 (Some 768) (no_options\<lparr>keywordWeight := Some 0\<rparr>) = Inr rs"
    using run by (simp add: HybridSearchStrategy_search_def)
  have vals: "map similarity rs = [351 / 500, 7 / 10]" "map vectorSimilarity rs = [24 / 25, 1]"
    "map keywordSimilarity rs = [1 / 10, 0]"
    using run' unfolding h by auto
  have scores: "list_all (\<lambda>r. similarity r = vectorSimilarity r * (7 / 10) + keywordSimilarity r * (3 / 10)) rs"
    using rows by (simp add: list_all_iff w)
  have same': "HybridSearchStrategy_search plain_search example_db [4 / 5, 3 / 5] ''pressure''
       ''gemini-embedding-exp'' ''xeto'' 2 (Some 768) (no_options\<lparr>keywordWeight := Some 0\<rparr>) =
   HybridSearchStrategy_search plain_search example_db [4 / 5, 3 / 5] ''pressure''
       ''gemini-embedding-exp'' ''xeto'' 2 (Some 768) (no_options\<lparr>keywordWeight := Some 0.3\<rparr>)"
    using same by (simp add: HybridSearchStrategy_search_def)
  have "\<exists>rs. HybridSearchStrategy_search plain_search example_db [4 / 5, 3 / 5] ''pressure''
       ''gemini-embedding-exp'' ''xeto'' 2 (Some 768) (no_options\<lparr>keywordWeight := Some 0\<rparr>) = Inr rs \<and>
      length rs \<le> 2 \<and>
      sorted_wrt (\<lambda>a b. similarity a \<ge> similarity b) rs \<and>
      list_all (\<lambda>r. similarity r = vectorSimilarity r * (7 / 10) + keywordSimilarity r * (3 / 10)) rs \<and>
      map similarity rs = [351 / 500, 7 / 10] \<and>
      map vectorSimilarity rs = [24 / 25, 1] \<and>
      map keywordSimilarity rs = [1 / 10, 0]"
    using run' len srt scores vals by (intro exI [of _ rs] conjI)
  note pressure = this
  have m: "list_all (\<lambda>d. \<not> ts_match plain_search (content d) (js_join '' | '' (extractKeywords ''humidity'')))
     [doc_co2, doc_pressure]"
    by (simp add: example_keywords example_matches doc_co2_def doc_pressure_def)
  then have m': "\<forall>d\<in>set [doc_co2, doc_pressure]. content_type d = ''xeto'' \<longrightarrow>
           \<not> ts_match plain_search (content d) (js_join '' | '' (extractKeywords ''humidity''))"
    by simp
  have pos: "0 < js_or (vectorWeight no_options) 0.7"
    by (simp add: w)
  have d: "distinct (map (\<lambda>d. cosine_distance (embedding d) [4 / 5, 3 / 5])
                  (filter (\<lambda>d. content_type d = ''xeto'') [doc_co2, doc_pressure]))"
    by (simp add: doc_co2_def doc_pressure_def example_distances)
  have v: "VectorSearchStrategy_search_by order_by example_db [4 / 5, 3 / 5] ''gemini-embedding-exp'' ''xeto'' 2 (Some 768) =
     Inr [\<lparr>res_id = 1, res_content = ''CO2-Sensor: measures carbon dioxide'', res_contentType = ''xeto'',
           res_metadata = None, res_xetoSpecName = Some ''Co2Sensor'', res_xetoLibrary = Some ''ph.points'',
           similarity = 1\<rparr>,
          \<lparr>res_id = 2, res_content = ''Pressure sensor point'', res_contentType = ''xeto'',
           res_metadata = None, res_xetoSpecName = Some ''PressureSensor'', res_xetoLibrary = Some ''ph.points'',
           similarity = 24 / 25\<rparr>]"
    by (simp add: VectorSearchStrategy_search_by_def from_table_def example_db_768 vector_results_by_def
        order_by_def doc_co2_def doc_pressure_def select_columns_def example_distances)
  from hybrid_zero_keyword_weight [where db = example_db and dimension = "Some 768"
      and ts = plain_search and queryText = "''humidity''" and options = no_options
      and q = "[4 / 5, 3 / 5]" and embeddingModel = "''gemini-embedding-exp''"
      and contentType = "''xeto''" and topK = 2
      and obv = order_by and obk = order_by and obc = order_by,
      OF example_db_768 vectors_ok_example is_order_by_stable is_order_by_stable is_order_by_stable]
  obtain hs where hrun: "HybridSearchStrategy_search_by order_by order_by order_by plain_search example_db
       [4 / 5, 3 / 5] ''humidity'' ''gemini-embedding-exp'' ''xeto'' 2 (Some 768)
       (no_options\<lparr>keywordWeight := Some 0\<rparr>) = Inr hs"
    and every: "(\<forall>d\<in>set [doc_co2, doc_pressure]. content_type d = ''xeto'' \<longrightarrow>
           \<not> ts_match plain_search (content d) (js_join '' | '' (extractKeywords ''humidity''))) \<and>
       0 < js_or (vectorWeight no_options) 0.7 \<and>
       distinct (map (\<lambda>d. cosine_distance (embedding d) [4 / 5, 3 / 5])
                   (filter (\<lambda>d. content_type d = ''xeto'') [doc_co2, doc_pressure])) \<longrightarrow>
         (\<forall>ob. is_order_by ob \<longrightarrow>
            (\<exists>vs. VectorSearchStrategy_search_by ob example_db [4 / 5, 3 / 5] ''gemini-embedding-exp'' ''xeto'' 2 (Some 768) = Inr vs \<and>
               list_all2 (\<lambda>r v. res_id r = res_id v \<and> res_content r = res_content v \<and>
                  res_contentType r = res_contentType v \<and> res_metadata r = res_metadata v \<and>
                  res_xetoSpecName r = res_xetoSpecName v \<and> res_xetoLibrary r = res_xetoLibrary v \<and>
                  similarity r = similarity v * js_or (vectorWeight no_options) 0.7 \<and>
                  vectorSimilarity r = similarity v \<and> keywordSimilarity r = 0) hs vs))"
    by blast
  from every m' pos d have "\<exists>vs. VectorSearchStrategy_search_by order_by example_db [4 / 5, 3 / 5] ''gemini-embedding-exp'' ''xeto'' 2 (Some 768) = Inr vs \<and>
              list_all2 (\<lambda>r v. res_id r = res_id v \<and> res_content r = res_content v \<and>
                  res_contentType r = res_contentType v \<and> res_metadata r = res_metadata v \<and>
                  res_xetoSpecName r = res_xetoSpecName v \<and> res_xetoLibrary r = res_xetoLibrary v \<and>
                  similarity r = similarity v * (7 / 10) \<and>
                  vectorSimilarity r = similarity v \<and> keywordSimilarity r = 0) hs vs"
    using is_order_by_stable [where 'a = document] by (simp add: w)
  then have "hs = [\<lparr>res_id = 1, res_content = ''CO2-Sensor: measures carbon dioxide'', res_contentType = ''xeto'',
           res_metadata = None, res_xetoSpecName = Some ''Co2Sensor'', res_xetoLibrary = Some ''ph.points'',
           similarity = 7 / 10, vectorSimilarity = 1, keywordSimilarity = 0\<rparr>,
          \<lparr>res_id = 2, res_content = ''Pressure sensor point'', res_contentType = ''xeto'',
           res_metadata = None, res_xetoSpecName = Some ''PressureSensor'', res_xetoLibrary = Some ''ph.points'',
           similarity = 84 / 125, vectorSimilarity = 24 / 25, keywordSimilarity = 0\<rparr>]"
    unfolding v by (auto simp: list_all2_Cons2)
  with hrun have humidity: "HybridSearchStrategy_search plain_search example_db [4 / 5, 3 / 5] ''humidity''
       ''gemini-embedding-exp'' ''xeto'' 2 (Some 768) (no_options\<lparr>keywordWeight := Some 0\<rparr>) =
     Inr [\<lparr>res_id = 1, res_content = ''CO2-Sensor: measures carbon dioxide'', res_contentType = ''xeto'',
           res_metadata = None, res_xetoSpecName = Some ''Co2Sensor'', res_xetoLibrary = Some ''ph.points'',
           similarity = 7 / 10, vectorSimilarity = 1, keywordSimilarity = 0\<rparr>,
          \<lparr>res_id = 2, res_content = ''Pressure sensor point'', res_contentType = ''xeto'',
           res_metadata = None, res_xetoSpecName = Some ''PressureSensor'', res_xetoLibrary = Some ''ph.points'',
           similarity = 84 / 125, vectorSimilarity = 24 / 25, keywordSimilarity = 0\<rparr>]"
    by (simp add: HybridSearchStrategy_search_def)
  have v': "VectorSearchStrategy_search example_db [4 / 5, 3 / 5] ''gemini-embedding-exp'' ''xeto'' 2 (Some 768) =
     Inr [\<lparr>res_id = 1, res_content = ''CO2-Sensor: measures carbon dioxide'', res_contentType = ''xeto'',
           res_metadata = None, res_xetoSpecName = Some ''Co2Sensor'', res_xetoLibrary = Some ''ph.points'',
           similarity = 1\<rparr>,
          \<lparr>res_id = 2, res_content = ''Pressure sensor point'', res_contentType = ''xeto'',
           res_metadata = None, res_xetoSpecName = Some ''PressureSensor'', res_xetoLibrary = Some ''ph.points'',
           similarity = 24 / 25\<rparr>]"
    using v by (simp add: VectorSearchStrategy_search_def)
  have ord: "is_order_by (order_by :: document ordering)"
    "is_order_by (order_by :: (columns \<times> real) ordering)"
    "is_order_by (order_by :: (columns \<times> real \<times> real \<times> real) ordering)"
    by (rule is_order_by_stable)+
  from example_db_768 vectors_ok_example ord same' pressure m pos d humidity v'
  show ?thesis by (intro conjI)
qed

section \<open>Properties of the Combined strategy\<close>

text \<open>
  What the Combined strategy does on every input: the final score of a candidate is its
  weighted sum, times 1.2 when the \<open>ILIKE\<close> test succeeds. For a query text without the
  pattern characters \<open>%\<close>, \<open>_\<close> and backslash, the test is the containment of the
  query text in the content without regard to case.
\<close>

lemma like_match_percent: "like_match ''%'' s"
  by (induction s) simp_all

lemma js_startsWith_Nil: "js_startsWith [] sub = (sub = [])"
  by (cases sub) simp_all

lemma like_match_prefix:
  "\<forall>c\<in>set q. c \<noteq> CHR ''%'' \<and> c \<noteq> CHR ''_'' \<and> c \<noteq> CHR 0x5C \<Longrightarrow>
   like_match (q @ ''%'') s = js_startsWith s q"
proof (induction q arbitrary: s)
  case Nil
  then show ?case by (simp add: like_match_percent)
next
  case (Cons c cs)
  then show ?case by (cases s) auto
qed

lemma like_match_infix:
  assumes "\<forall>c\<in>set q. c \<noteq> CHR ''%'' \<and> c \<noteq> CHR ''_'' \<and> c \<noteq> CHR 0x5C"
  shows "like_match (''%'' @ q @ ''%'') s = js_includes s q"
proof (induction s)
  case Nil
  show ?case using like_match_prefix [OF assms, of "[]"] by (simp add: js_startsWith_Nil)
next
  case (Cons x xs)
  then show ?case using like_match_prefix [OF assms, of "x # xs"] by simp
qed

lemma of_char_lower_char:
  "of_char (lower_char c) = (of_char c :: nat) \<or> (97 \<le> (of_char (lower_char c) :: nat))"
  by (auto simp: lower_char_def Let_def)

lemma lower_char_plain:
  assumes "c \<noteq> CHR ''%''" "c \<noteq> CHR ''_''" "c \<noteq> CHR 0x5C"
  shows "lower_char c \<noteq> CHR ''%'' \<and> lower_char c \<noteq> CHR ''_'' \<and> lower_char c \<noteq> CHR 0x5C"
proof -
  have a: "x = y" if "(of_char x :: nat) = of_char y" for x y :: char
    using that by simp
  have "(of_char (lower_char c) :: nat) \<noteq> 37 \<and> (of_char (lower_char c) :: nat) \<noteq> 95 \<and>
        (of_char (lower_char c) :: nat) \<noteq> 92"
  proof (cases "of_char (lower_char c) = (of_char c :: nat)")
    case True
    then have "lower_char c = c" by simp
    moreover have "(of_char c :: nat) \<noteq> 37" using assms(1) a [of c "CHR ''%''"] by auto
    moreover have "(of_char c :: nat) \<noteq> 95" using assms(2) a [of c "CHR ''_''"] by auto
    moreover have "(of_char c :: nat) \<noteq> 92" using assms(3) a [of c "CHR 0x5C"] by auto
    ultimately show ?thesis by simp
  next
    case False
    then have "97 \<le> (of_char (lower_char c) :: nat)" using of_char_lower_char [of c] by simp
    then show ?thesis by simp
  qed
  then show ?thesis by auto
qed

lemma ilike_plain_query:
  assumes "\<forall>c\<in>set q. c \<noteq> CHR ''%'' \<and> c \<noteq> CHR ''_'' \<and> c \<noteq> CHR 0x5C"
  shows "ilike txt (''%'' @ q @ ''%'') = js_includes (toLowerCase txt) (toLowerCase q)"
proof -
  have p: "lower_char (CHR ''%'') = CHR ''%''" by code_simp
  have "\<forall>c\<in>set (toLowerCase q). c \<noteq> CHR ''%'' \<and> c \<noteq> CHR ''_'' \<and> c \<noteq> CHR 0x5C"
    using assms lower_char_plain by (auto simp: toLowerCase_def)
  from like_match_infix [OF this] show ?thesis
    by (simp add: ilike_def toLowerCase_def p)
qed

lemma set_order_by_desc: "set (order_by_desc key rows) = set rows"
  by (simp add: order_by_desc_def)

lemma combined_results_sum:
  "(c, wv, wk, wb, score) \<in> set (combined_results vk b w6 w7 w8) \<Longrightarrow> score = wv + wk + wb"
  by (auto simp: combined_results_def)

lemma combined_candidate_score:
  assumes "CombinedSearchStrategy_search ts db e queryText m contentType topK dimension options = Inr rs"
    and "r \<in> set rs"
  shows "similarity r =
     (if ilike (res_content r) (''%'' @ queryText @ ''%'')
      then (vectorSimilarity r * js_or (vectorWeight options) 0.5 +
            keywordSimilarity r * js_or (keywordWeight options) 0.3 +
            bm25Similarity r * js_or (bm25Weight options) 0.2) * 1.2
      else vectorSimilarity r * js_or (vectorWeight options) 0.5 +
           keywordSimilarity r * js_or (keywordWeight options) 0.3 +
           bm25Similarity r * js_or (bm25Weight options) 0.2)"
proof -
  define w6 where "w6 = js_or (vectorWeight options) 0.5"
  define w7 where "w7 = js_or (keywordWeight options) 0.3"
  define w8 where "w8 = js_or (bm25Weight options) 0.2"
  have nz: "w6 \<noteq> 0" "w7 \<noteq> 0" "w8 \<noteq> 0"
    by (simp_all add: w6_def w7_def w8_def js_or_nonzero)
  obtain docs where docs: "db (tableName dimension) = Some docs"
    using assms(1)
    by (auto simp: CombinedSearchStrategy_search_def from_table_def Let_def split: option.splits)
  define pat where "pat = js_join '' | '' (combined_extractKeywords queryText)"
  define cr where "cr = combined_results
                    (vk_join (vector_results docs e contentType (topK * 3))
                             (keyword_results ts docs pat contentType (topK * 3)))
                    (bm25_results ts docs queryText contentType (topK * 3)) w6 w7 w8"
  define selected where "selected = take topK
              (order_by_desc (\<lambda>(c, wv, wk, wb, score, boosted). boosted)
                (phrase_boosted cr queryText))"
  have rs: "rs = map (\<lambda>(c, wv, wk, wb, score, boosted).
                         \<lparr>res_id = id_col c, res_content = content c, res_contentType = content_type c,
                          res_metadata = metadata c, res_xetoSpecName = xeto_spec_name c,
                          res_xetoLibrary = xeto_library c, similarity = boosted,
                          vectorSimilarity = wv / w6, keywordSimilarity = wk / w7,
                          bm25Similarity = wb / w8\<rparr>) selected"
    using assms(1) docs nz
    by (simp add: CombinedSearchStrategy_search_def from_table_def Let_def combined_query_def
        w6_def w7_def w8_def pat_def cr_def selected_def comp_def case_prod_unfold)
  from assms(2) obtain c wv wk wb score boosted
    where row: "(c, wv, wk, wb, score, boosted) \<in> set selected"
      and r: "r = \<lparr>res_id = id_col c, res_content = content c, res_contentType = content_type c,
                          res_metadata = metadata c, res_xetoSpecName = xeto_spec_name c,
                          res_xetoLibrary = xeto_library c, similarity = boosted,
                          vectorSimilarity = wv / w6, keywordSimilarity = wk / w7,
                          bm25Similarity = wb / w8\<rparr>"
    unfolding rs by auto
  from row have "(c, wv, wk, wb, score, boosted) \<in> set (phrase_boosted cr queryText)"
    unfolding selected_def using in_set_takeD set_order_by_desc by fast
  then have b: "boosted = (if ilike (content c) (''%'' @ queryText @ ''%'') then score * 1.2 else score)"
    and "(c, wv, wk, wb, score) \<in> set cr"
    by (auto simp: phrase_boosted_def)
  then have "score = wv + wk + wb" unfolding cr_def by (intro combined_results_sum)
  then show ?thesis
    using b nz unfolding r w6_def [symmetric] w7_def [symmetric] w8_def [symmetric] by simp
qed

lemma combined_phrase_boost_plain:
  assumes "CombinedSearchStrategy_search ts db e queryText m contentType topK dimension options = Inr rs"
    and "r \<in> set rs"
    and "\<forall>c\<in>set queryText. c \<noteq> CHR ''%'' \<and> c \<noteq> CHR ''_'' \<and> c \<noteq> CHR 0x5C"
  shows "similarity r =
     (if js_includes (toLowerCase (res_content r)) (toLowerCase queryText)
      then (vectorSimilarity r * js_or (vectorWeight options) 0.5 +
            keywordSimilarity r * js_or (keywordWeight options) 0.3 +
            bm25Similarity r * js_or (bm25Weight options) 0.2) * 1.2
      else vectorSimilarity r * js_or (vectorWeight options) 0.5 +
           keywordSimilarity r * js_or (keywordWeight options) 0.3 +
           bm25Similarity r * js_or (bm25Weight options) 0.2)"
  using combined_candidate_score [OF assms(1,2)] ilike_plain_query [OF assms(3), of "res_content r"]
  by simp

lemma example_combined_keywords:
  "js_join '' | '' (combined_extractKeywords ''co2_sensor'') = ''co2_sensor''"
  by code_simp

lemma example_co2_matches:
  "ts_match plain_search ''CO2-Sensor: measures carbon dioxide'' ''co2_sensor'' = False"
  "ts_match plain_search ''Pressure sensor point'' ''co2_sensor'' = False"
  by code_simp+

lemma example_ilike:
  "ilike ''CO2-Sensor: measures carbon dioxide'' ''%co2_sensor%'' = True"
  "ilike ''Pressure sensor point'' ''%co2_sensor%'' = False"
  by code_simp+

lemma example_not_contained:
  "js_includes (toLowerCase ''CO2-Sensor: measures carbon dioxide'') (toLowerCase ''co2_sensor'') = False"
  by code_simp

text \<open>
  Claim C1 fails on the code for a query text with a pattern character. The phrase boost
  tests \<open>content ILIKE '%' || $5 || '%'\<close>, where \<open>_\<close> and \<open>%\<close> in the query text are
  wildcards: for the query text \<open>co2_sensor\<close> the row with the content
  \<open>CO2-Sensor: measures carbon dioxide\<close> does not contain the query text, its unboosted
  weighted sum is \<open>1 * 0.5 + 0 * 0.3 + 0 * 0.2\<close>, and its final score is 1.2 times that
  sum, 0.6.
\<close>

theorem phrase_boost_wildcard:
  "\<not> js_includes (toLowerCase (content doc_co2)) (toLowerCase ''co2_sensor'') \<and>
   CombinedSearchStrategy_search plain_search example_db [4 / 5, 3 / 5] ''co2_sensor''
       ''gemini-embedding-exp'' ''xeto'' 2 (Some 768) no_combined_options =
     Inr [\<lparr>res_id = 1, res_content = ''CO2-Sensor: measures carbon dioxide'', res_contentType = ''xeto'',
           res_metadata = None, res_xetoSpecName = Some ''Co2Sensor'', res_xetoLibrary = Some ''ph.points'',
           similarity = 6 / 10, vectorSimilarity = 1, keywordSimilarity = 0, bm25Similarity = 0\<rparr>,
          \<lparr>res_id = 2, res_content = ''Pressure sensor point'', res_contentType = ''xeto'',
           res_metadata = None, res_xetoSpecName = Some ''PressureSensor'', res_xetoLibrary = Some ''ph.points'',
           similarity = 12 / 25, vectorSimilarity = 24 / 25, keywordSimilarity = 0, bm25Similarity = 0\<rparr>] \<and>
   (6 / 10 :: real) = 1.2 * (1 * 0.5 + 0 * 0.3 + 0 * 0.2) \<and>
   (6 / 10 :: real) \<noteq> 1 * 0.5 + 0 * 0.3 + 0 * 0.2"
proof -
  have w: "js_or (vectorWeight no_combined_options) (1 / 2) = 1 / 2"
    "js_or (keywordWeight no_combined_options) (3 / 10) = 3 / 10"
    "js_or (bm25Weight no_combined_options) (1 / 5) = 1 / 5"
    by (simp_all add: js_or_def no_combined_options_def)
  have v6: "vector_results [doc_co2, doc_pressure] [4 / 5, 3 / 5] ''xeto'' 6 =
     [(select_columns doc_co2, 1), (select_columns doc_pressure, 24 / 25)]"
    using example_vector_results [of 4] by simp
  have k: "keyword_results plain_search [doc_co2, doc_pressure] ''co2_sensor'' ''xeto'' 6 = []"
    by (simp add: keyword_results_stable order_by_desc_def doc_co2_def doc_pressure_def example_co2_matches)
  have plain_rank: "rank_cd_weighted plain_search a b c d = 0" for a b c d
    by (simp add: plain_search_def)
  have b: "bm25_results plain_search [doc_co2, doc_pressure] ''co2_sensor'' ''xeto'' 6 =
      [(select_columns doc_co2, 0), (select_columns doc_pressure, 0)]"
    by (simp add: bm25_results_def order_by_desc_def doc_co2_def doc_pressure_def plain_rank)
  have run: "CombinedSearchStrategy_search plain_search example_db [4 / 5, 3 / 5] ''co2_sensor''
       ''gemini-embedding-exp'' ''xeto'' 2 (Some 768) no_combined_options =
     Inr [\<lparr>res_id = 1, res_content = ''CO2-Sensor: measures carbon dioxide'', res_contentType = ''xeto'',
           res_metadata = None, res_xetoSpecName = Some ''Co2Sensor'', res_xetoLibrary = Some ''ph.points'',
           similarity = 6 / 10, vectorSimilarity = 1, keywordSimilarity = 0, bm25Similarity = 0\<rparr>,
          \<lparr>res_id = 2, res_content = ''Pressure sensor point'', res_contentType = ''xeto'',
           res_metadata = None, res_xetoSpecName = Some ''PressureSensor'', res_xetoLibrary = Some ''ph.points'',
           similarity = 12 / 25, vectorSimilarity = 24 / 25, keywordSimilarity = 0, bm25Similarity = 0\<rparr>]"
    apply (simp add: CombinedSearchStrategy_search_def Let_def w example_combined_keywords from_table_def
        example_db_768 combined_query_def v6 k b)
    apply (simp add: combined_results_def vk_join_def phrase_boosted_def full_outer_join_def
        order_by_desc_def coalesce_columns_def coalesce_col_def coalesce_null_def left_col_def
        right_col_def coalesce_def select_columns_def doc_co2_def doc_pressure_def example_ilike)
    done
  show ?thesis
    using example_not_contained run by (simp add: doc_co2_def)
qed

end
